theory Spec2Isabelle
  imports Main "HOL-Library.Sublist" "HOL-Library.Word" "HOL-Library.AList"
begin

section \<open>Values shared by the session and executor commands\<close>

text \<open>
  A Go \<open>error\<close> value is modelled by its message (what \<open>err.Error()\<close> returns) and by the
  answer \<open>os.IsNotExist(err)\<close> gives for it. A nil error is \<open>None\<close> of \<open>error option\<close>; a
  function returning \<open>(T, error)\<close> returns \<open>error + T\<close> with \<open>Inl\<close> the error.
\<close>

datatype error = GoError (Error: string) (IsNotExist: bool)

definition Errorf :: "string \<Rightarrow> error" where
  "Errorf msg = GoError msg False"

type_synonym timestamp = int
type_synonym float64 = "64 word"
type_synonym container = string

text \<open>\<open>strings.HasPrefix(s, p)\<close>.\<close>

definition HasPrefix :: "string \<Rightarrow> string \<Rightarrow> bool" where
  "HasPrefix s p = prefix p s"

text \<open>\<open>strings.Join(elems, sep)\<close>.\<close>

fun Join :: "string list \<Rightarrow> string \<Rightarrow> string" where
  "Join [] sep = []"
| "Join [x] sep = x"
| "Join (x # y # ys) sep = x @ sep @ Join (y # ys) sep"

text \<open>
  \<open>strings.ToLower\<close> on the bytes of an ASCII string: the letters \<open>A\<close> to \<open>Z\<close> move to
  \<open>a\<close> to \<open>z\<close>, every other byte stays. Session identifiers are ASCII.
\<close>

definition lowerByte :: "char \<Rightarrow> char" where
  "lowerByte c =
     (if of_char (CHR ''A'') \<le> (of_char c :: nat) \<and> (of_char c :: nat) \<le> of_char (CHR ''Z'')
      then char_of ((of_char c :: nat) + 32) else c)"

definition ToLower :: "string \<Rightarrow> string" where
  "ToLower s = map lowerByte s"

text \<open>\<open>strings.TrimSpace\<close> on ASCII white space.\<close>

definition isSpace :: "char \<Rightarrow> bool" where
  "isSpace c = ((of_char c :: nat) \<in> {9, 10, 11, 12, 13, 32})"

definition TrimSpace :: "string \<Rightarrow> string" where
  "TrimSpace s = rev (dropWhile isSpace (rev (dropWhile isSpace s)))"

definition nl :: string where
  "nl = [CHR 0x0A]"

definition dq :: string where
  "dq = [CHR 0x22]"

section \<open>The remote scheduler's and the runtime driver's data\<close>

record execution_state =
  Scheduled :: "timestamp option"
  Started :: "timestamp option"
  Ended :: "timestamp option"
  Finalized :: "timestamp option"
  Canceled :: "timestamp option"

text \<open>\<open>&api.ExecutionState{}\<close>: every timestamp nil.\<close>

definition ExecutionState_empty :: execution_state where
  "ExecutionState_empty =
     \<lparr>Scheduled = None, Started = None, Ended = None, Finalized = None, Canceled = None\<rparr>"

record resource_limits =
  CPUCount :: float64
  GPUs :: "string list"
  Memory :: int

record session =
  ID :: string
  State :: execution_state
  Limits :: "resource_limits option"

record session_patch =
  patch_State :: "execution_state option"

record task_resources =
  GPUCount :: int

record session_spec =
  spec_Name :: string
  spec_Node :: string
  spec_Resources :: "task_resources option"

record mount =
  HostPath :: string
  ContainerPath :: string

record container_opts =
  Name :: string
  Image :: string
  Command :: "string list option"
  Labels :: "(string \<times> string) list"
  Env :: "(string \<times> string) list"
  Mounts :: "mount list"
  opts_CPUCount :: float64
  opts_GPUs :: "string list"
  opts_Memory :: int
  Interactive :: bool
  User :: string
  WorkingDir :: string

record os_user =
  Uid :: string
  Gid :: string
  HomeDir :: string

definition sessionContainerLabel :: string where
  "sessionContainerLabel = ''beaker.org/session''"

definition sessionGPULabel :: string where
  "sessionGPULabel = ''beaker.org/gpus''"

section \<open>The world outside the process\<close>

text \<open>
  Every call that leaves the process (remote scheduler, container runtime driver, timers,
  file system, HTTP, subprocesses) is appended to \<open>trace\<close>, in call order. The files the
  commands manage are kept in \<open>files\<close>, keyed by path. What the process prints is kept as
  format string and arguments, unformatted.
\<close>

datatype fnode = File (content: string) (mode: nat) | Dir

datatype fmt_arg = Str string | Num int | Flt float64 | FltDiv int int | ErrV error

datatype event =
    GetCurrentNode
  | CreateSession session_spec
  | SessionGet string "error + session"
  | SessionPatch string session_patch
  | ClusterGet string
  | NewTimer nat
  | TimerReset nat
  | UserCurrent
  | NewRuntime
  | PullImage string bool
  | CreateContainer container_opts
  | ContainerStart container
  | ContainerAttach container
  | ContainerExec container "string list option"
  | ListContainers
  | ContainerInfo container
  | PrintSessions "session list"
  | Confirm string "fmt_arg list"
  | GetExecutorConfig
  | HttpGet string
  | ExecCmd "string list" "string list"
  | MkdirAll string nat
  | WriteFile string string nat
  | Create string
  | Write string string
  | Chmod string nat
  | Remove string
  | RemoveAll string

record world =
  files :: "(string \<times> fnode) list"
  trace :: "event list"
  stdout :: "(string \<times> fmt_arg list) list"
  stderr :: "(string \<times> fmt_arg list) list"

definition log :: "event \<Rightarrow> world \<Rightarrow> world" where
  "log ev w = w\<lparr>trace := trace w @ [ev]\<rparr>"

definition Printf :: "string \<Rightarrow> fmt_arg list \<Rightarrow> world \<Rightarrow> world" where
  "Printf fmt args w = w\<lparr>stdout := stdout w @ [(fmt, args)]\<rparr>"

definition Println :: "string \<Rightarrow> world \<Rightarrow> world" where
  "Println msg w = Printf (msg @ nl) [] w"

definition Fprintf_Stderr :: "string \<Rightarrow> fmt_arg list \<Rightarrow> world \<Rightarrow> world" where
  "Fprintf_Stderr fmt args w = w\<lparr>stderr := stderr w @ [(fmt, args)]\<rparr>"

record http_response =
  body :: string
  body_err :: "error option"

record executor_config =
  StoragePath :: string

text \<open>
  The collaborators are deterministic but arbitrary: each answer is a function of the world
  at the moment of the call (so of everything that happened before) and of the arguments.
  \<open>select_done\<close> says whether a \<open>select\<close> entered in that world takes the \<open>ctx.Done()\<close>
  case; \<open>fs_fault\<close> is the failure, if any, the operating system reports for a file
  operation for a reason the file map does not decide (permissions, I/O errors, a
  directory that is not empty).
  \<open>quiet\<close>, \<open>UserToken\<close>, \<open>executorConfigDir\<close> and \<open>executorConfigPath\<close> are the
  package-level values the commands read; \<open>confirm\<close>, \<open>getCurrentNode\<close>,
  \<open>getExecutorConfig\<close> and \<open>printSessions\<close> are helpers of the package called by the
  commands.
\<close>

record env =
  quiet :: bool
  UserToken :: string
  executorConfigDir :: string
  executorConfigPath :: string
  select_done :: "world \<Rightarrow> bool"
  ctx_Err :: "world \<Rightarrow> error"
  time_Now :: "world \<Rightarrow> timestamp"
  getCurrentNode :: "world \<Rightarrow> error + string"
  beaker_CreateSession :: "world \<Rightarrow> session_spec \<Rightarrow> error + session"
  beaker_Session_Get :: "world \<Rightarrow> string \<Rightarrow> error + session"
  beaker_Session_Patch :: "world \<Rightarrow> string \<Rightarrow> session_patch \<Rightarrow> error + session"
  beaker_Cluster_Get :: "world \<Rightarrow> string \<Rightarrow> error option"
  user_Current :: "world \<Rightarrow> error + os_user"
  docker_NewRuntime :: "world \<Rightarrow> error option"
  rt_PullImage :: "world \<Rightarrow> string \<Rightarrow> bool \<Rightarrow> error option"
  rt_CreateContainer :: "world \<Rightarrow> container_opts \<Rightarrow> error + container"
  rt_ListContainers :: "world \<Rightarrow> error + container list"
  container_Start :: "world \<Rightarrow> container \<Rightarrow> error option"
  container_Attach :: "world \<Rightarrow> container \<Rightarrow> error option"
  container_Exec :: "world \<Rightarrow> container \<Rightarrow> string list option \<Rightarrow> error option"
  container_Info :: "world \<Rightarrow> container \<Rightarrow> error + (string \<times> string) list"
  printSessions :: "world \<Rightarrow> session list \<Rightarrow> error option"
  confirm :: "world \<Rightarrow> string \<Rightarrow> fmt_arg list \<Rightarrow> error + bool"
  getExecutorConfig :: "world \<Rightarrow> error + executor_config"
  http_Get :: "world \<Rightarrow> string \<Rightarrow> error + http_response"
  exec_CombinedOutput :: "world \<Rightarrow> string list \<Rightarrow> string list \<Rightarrow> string \<times> error option"
  fs_fault :: "world \<Rightarrow> event \<Rightarrow> error option"

text \<open>\<open>now()\<close>: a pointer to the current time.\<close>

definition now :: "env \<Rightarrow> world \<Rightarrow> timestamp option" where
  "now E w = Some (time_Now E w)"

text \<open>\<open>time.Second\<close>, a \<open>time.Duration\<close> in nanoseconds.\<close>

definition Second :: nat where
  "Second = 1000000000"

text \<open>\<open>os.Stat(path)\<close>: nil when the path exists, a not-exist error otherwise.\<close>

definition os_Stat :: "world \<Rightarrow> string \<Rightarrow> error option" where
  "os_Stat w p =
     (case map_of (files w) p of
        Some n \<Rightarrow> None
      | None \<Rightarrow> Some (GoError (''stat '' @ p @ '': no such file or directory'') True))"

section \<open>handleAttachErr\<close>

definition handleAttachErr :: "error option \<Rightarrow> error option" where
  "handleAttachErr err =
     (case err of
        None \<Rightarrow> None
      | Some e \<Rightarrow> if HasPrefix (Error e) ''exited with code '' then None else Some e)"

section \<open>session.go\<close>

subsection \<open>awaitSessionSchedule\<close>

text \<open>
  The \<open>for\<close> loop has no exit condition of its own, so the model takes fuel, one unit for
  each pass through the \<open>select\<close>: \<open>None\<close> is a wait that has not returned within the
  fuel given.
\<close>

fun awaitLoop ::
  "env \<Rightarrow> string \<Rightarrow> nat \<Rightarrow> nat \<Rightarrow> world \<Rightarrow> ((error + session) \<times> world) option" where
  "awaitLoop E session 0 attempt w = None"
| "awaitLoop E session (Suc fuel) attempt w =
     (if select_done E w then Some (Inl (ctx_Err E w), w)
      else
        (case beaker_Session_Get E w session of
           Inl err \<Rightarrow> Some (Inl err, log (SessionGet session (Inl err)) w)
         | Inr info \<Rightarrow>
             (let w1 = log (SessionGet session (Inr info)) w in
              if Scheduled (State info) \<noteq> None
              then Some (Inr info, if quiet E then w1 else Println [] w1)
              else awaitLoop E session fuel (attempt + 1)
                     (log (TimerReset Second)
                        (if quiet E then w1 else Printf ''.'' [] w1)))))"

definition awaitSessionSchedule ::
  "env \<Rightarrow> string \<Rightarrow> nat \<Rightarrow> world \<Rightarrow> ((error + session) \<times> world) option" where
  "awaitSessionSchedule E session fuel w =
     awaitLoop E session fuel 0
       (log (NewTimer 0)
          (if quiet E then w else Printf ''Waiting for session to be scheduled'' [] w))"

subsection \<open>startSession\<close>

text \<open>
  A command either returns its \<open>error\<close> (nil or not) or the process panics: \<open>startSession\<close>
  reads \<open>session.Limits.GPUs\<close> without a nil check. The construction of the container
  options and the calls of the runtime driver, which the source has inline, are
  \<open>containerOpts\<close> and \<open>launch\<close>.
\<close>

datatype outcome = Return "error option" | Panic string

definition GiB :: int where
  "GiB = 1073741824"

definition containerOpts ::
  "world \<Rightarrow> session \<Rightarrow> resource_limits \<Rightarrow> os_user \<Rightarrow> string \<Rightarrow> string list option
     \<Rightarrow> container_opts" where
  "containerOpts w session limits u imageTag command =
     (let labels = [(sessionContainerLabel, ID session),
                    (sessionGPULabel, Join (GPUs limits) '','')];
          env = (if HomeDir u \<noteq> [] then [(''HOME'', HomeDir u)] else []);
          mounts0 = (if HomeDir u \<noteq> []
                     then [\<lparr>HostPath = HomeDir u, ContainerPath = HomeDir u\<rparr>] else []);
          mounts = (case os_Stat w ''/net'' of
                      None \<Rightarrow> mounts0 @ [\<lparr>HostPath = ''/net'', ContainerPath = ''/net''\<rparr>]
                    | Some err \<Rightarrow>
                        if \<not> IsNotExist err
                        then mounts0 @ [\<lparr>HostPath = ''/net'', ContainerPath = ''/net''\<rparr>]
                        else mounts0)
      in \<lparr>Name = ToLower (''session-'' @ ID session),
          Image = imageTag,
          Command = command,
          Labels = labels,
          Env = env,
          Mounts = mounts,
          opts_CPUCount = CPUCount limits,
          opts_GPUs = GPUs limits,
          opts_Memory = Memory limits,
          Interactive = True,
          User = Uid u @ '':'' @ Gid u,
          WorkingDir = HomeDir u\<rparr>)"

definition launch :: "env \<Rightarrow> container_opts \<Rightarrow> world \<Rightarrow> error option \<times> world" where
  "launch E opts w =
     (let w1 = log NewRuntime w in
      case docker_NewRuntime E w of
        Some err \<Rightarrow> (Some err, w1)
      | None \<Rightarrow>
          (let w2 = (if quiet E then w1 else Println ''Pulling image...'' w1);
               w3 = log (PullImage (Image opts) (quiet E)) w2 in
           case rt_PullImage E w2 (Image opts) (quiet E) of
             Some err \<Rightarrow> (Some err, w3)
           | None \<Rightarrow>
               (let w4 = log (CreateContainer opts) w3 in
                case rt_CreateContainer E w3 opts of
                  Inl err \<Rightarrow> (Some err, w4)
                | Inr c \<Rightarrow>
                    (let w5 = log (ContainerStart c) w4 in
                     case container_Start E w4 c of
                       Some err \<Rightarrow> (Some err, w5)
                     | None \<Rightarrow>
                         (handleAttachErr (container_Attach E w5 c),
                          log (ContainerAttach c) w5)))))"

definition startSession ::
  "env \<Rightarrow> string \<Rightarrow> string \<Rightarrow> string list option \<Rightarrow> nat \<Rightarrow> world
     \<Rightarrow> (outcome \<times> world) option" where
  "startSession E sessionID imageTag command fuel w =
     (case awaitSessionSchedule E sessionID fuel w of
        None \<Rightarrow> None
      | Some (Inl err, w1) \<Rightarrow> Some (Return (Some err), w1)
      | Some (Inr session, w1) \<Rightarrow>
          (case Limits session of
             None \<Rightarrow> Some (Panic ''invalid memory address or nil pointer dereference'', w1)
           | Some limits \<Rightarrow>
               (let w2 = (if \<not> quiet E
                          then Printf (''Reserved %d GPU, %v CPU, %.1fGiB memory'' @ nl)
                                 [Num (int (length (GPUs limits))), Flt (CPUCount limits),
                                  FltDiv (Memory limits) GiB] w1
                          else w1);
                    w3 = log UserCurrent w2 in
                case user_Current E w2 of
                  Inl err \<Rightarrow> Some (Return (Some err), w3)
                | Inr u \<Rightarrow>
                    (case launch E (containerOpts w3 session limits u imageTag command) w3 of
                       (err, w4) \<Rightarrow> Some (Return err, w4)))))"

subsection \<open>findRunningContainer\<close>



subsection \<open>The session commands\<close>



definition cancelPatch :: "env \<Rightarrow> world \<Rightarrow> session_patch" where
  "cancelPatch E w = \<lparr>patch_State = Some (ExecutionState_empty\<lparr>Canceled := now E w\<rparr>)\<rparr>"

definition sessionCreate ::
  "env \<Rightarrow> int \<Rightarrow> string \<Rightarrow> string \<Rightarrow> string \<Rightarrow> string list \<Rightarrow> nat \<Rightarrow> world
     \<Rightarrow> (outcome \<times> world) option" where
  "sessionCreate E gpus imageTag name node args fuel w =
     (case (if node = []
            then (case getCurrentNode E w of
                    Inl err \<Rightarrow>
                      (Inl (Errorf (''failed to detect node; use --node flag: '' @ Error err)),
                       log GetCurrentNode w)
                  | Inr n \<Rightarrow> (Inr n, log GetCurrentNode w))
            else (Inr node, w)) of
        (Inl err, w1) \<Rightarrow> Some (Return (Some err), w1)
      | (Inr node1, w1) \<Rightarrow>
          (let spec = \<lparr>spec_Name = name, spec_Node = node1,
                       spec_Resources = Some \<lparr>GPUCount = gpus\<rparr>\<rparr>;
               w2 = log (CreateSession spec) w1 in
           case beaker_CreateSession E w1 spec of
             Inl err \<Rightarrow> Some (Return (Some err), w2)
           | Inr session \<Rightarrow>
               (let command = (if length args > 0 then Some args else None) in
                case startSession E (ID session) imageTag command fuel w2 of
                  None \<Rightarrow> None
                | Some (Panic msg, w3) \<Rightarrow> Some (Panic msg, w3)
                | Some (Return None, w3) \<Rightarrow> Some (Return None, w3)
                | Some (Return (Some err), w3) \<Rightarrow>
                    Some (Return (Some err),
                          log (SessionPatch (ID session) (cancelPatch E w3)) w3))))"

definition sessionUpdate :: "env \<Rightarrow> bool \<Rightarrow> string \<Rightarrow> world \<Rightarrow> error option \<times> world" where
  "sessionUpdate E cancel session w =
     (let patch0 = \<lparr>patch_State = Some ExecutionState_empty\<rparr>;
          patch = (if cancel
                   then patch0\<lparr>patch_State := Some (ExecutionState_empty\<lparr>Canceled := now E w\<rparr>)\<rparr>
                   else patch0);
          w1 = log (SessionPatch session patch) w in
      case beaker_Session_Patch E w session patch of
        Inl err \<Rightarrow> (Some err, w1)
      | Inr s \<Rightarrow> (printSessions E w1 [s], log (PrintSessions [s]) w1))"

section \<open>executor\_linux.go\<close>

subsection \<open>Constants and templates\<close>

definition versionURL :: string where
  "versionURL = ''https://storage.googleapis.com/ai2-beaker-public/bin/latest''"

text \<open>\<open>fmt.Sprintf(executorURL, version)\<close>.\<close>

definition executorURL :: "string \<Rightarrow> string" where
  "executorURL version =
     ''https://storage.googleapis.com/ai2-beaker-public/bin/'' @ version @ ''/executor''"

definition executorPath :: string where
  "executorPath = ''/usr/bin/beaker-executor''"

definition executorService :: string where
  "executorService = ''beaker-executor''"

definition defaultStorageDir :: string where
  "defaultStorageDir = ''/var/beaker''"

text \<open>\<open>path.Join(dir, name)\<close> for a directory path that is already clean.\<close>

definition path_Join :: "string \<Rightarrow> string \<Rightarrow> string" where
  "path_Join dir name = (if dir = [] then name else dir @ ''/'' @ name)"

definition executorTokenPath :: "env \<Rightarrow> string" where
  "executorTokenPath E = path_Join (executorConfigDir E) ''executor-token''"

definition executorSystemdPath :: string where
  "executorSystemdPath = ''/etc/systemd/system/'' @ executorService @ ''.service''"

record configOpts =
  cfg_StoragePath :: string
  cfg_TokenPath :: string
  cfg_Cluster :: string

definition configTemplate :: "configOpts \<Rightarrow> string" where
  "configTemplate opts =
     nl @ ''storagePath: '' @ cfg_StoragePath opts @ nl @
     ''beaker:'' @ nl @
     ''  tokenPath: '' @ cfg_TokenPath opts @ nl @
     ''  cluster: '' @ cfg_Cluster opts"

record systemdOpts =
  BinaryPath :: string
  ConfigPath :: string

definition systemdTemplate :: "systemdOpts \<Rightarrow> string" where
  "systemdTemplate opts =
     nl @ ''[Unit]'' @ nl @
     ''Description=Beaker executor'' @ nl @
     ''After=network.target'' @ nl @
     ''StartLimitIntervalSec=0'' @ nl @ nl @
     ''[Service]'' @ nl @
     ''Type=simple'' @ nl @
     ''Restart=always'' @ nl @
     ''RestartSec=1'' @ nl @
     ''ExecStart='' @ BinaryPath opts @ nl @
     ''Environment=CONFIG_PATH='' @ ConfigPath opts @ nl @ nl @
     ''[Install]'' @ nl @
     ''WantedBy=multi-user.target''"

subsection \<open>File operations\<close>

text \<open>
  Each operation is logged, then fails with the fault the operating system reports, if
  any, and otherwise acts on the file map. A failed operation leaves the file map as it
  was. Permissions are the numeric mode (\<open>0600\<close> is 384, \<open>0666\<close> is 438, \<open>0700\<close> is 448,
  \<open>os.ModePerm\<close> is 511).
\<close>

definition setFiles :: "(string \<times> fnode) list \<Rightarrow> world \<Rightarrow> world" where
  "setFiles fs w = w\<lparr>files := fs\<rparr>"


definition os_MkdirAll :: "env \<Rightarrow> string \<Rightarrow> nat \<Rightarrow> world \<Rightarrow> error option \<times> world" where
  "os_MkdirAll E p perm w =
     (let w1 = log (MkdirAll p perm) w in
      case fs_fault E w (MkdirAll p perm) of
        Some err \<Rightarrow> (Some err, w1)
      | None \<Rightarrow>
          (case map_of (files w) p of
             Some Dir \<Rightarrow> (None, w1)
           | Some (File c m) \<Rightarrow> (Some (Errorf (''mkdir '' @ p @ '': not a directory'')), w1)
           | None \<Rightarrow> (None, setFiles (AList.update p Dir (files w)) w1)))"

definition ioutil_WriteFile ::
  "env \<Rightarrow> string \<Rightarrow> string \<Rightarrow> nat \<Rightarrow> world \<Rightarrow> error option \<times> world" where
  "ioutil_WriteFile E p data perm w =
     (let w1 = log (WriteFile p data perm) w in
      case fs_fault E w (WriteFile p data perm) of
        Some err \<Rightarrow> (Some err, w1)
      | None \<Rightarrow>
          (case map_of (files w) p of
             Some Dir \<Rightarrow> (Some (Errorf (''open '' @ p @ '': is a directory'')), w1)
           | Some (File c m) \<Rightarrow> (None, setFiles (AList.update p (File data m) (files w)) w1)
           | None \<Rightarrow> (None, setFiles (AList.update p (File data perm) (files w)) w1)))"

definition os_Create :: "env \<Rightarrow> string \<Rightarrow> world \<Rightarrow> error option \<times> world" where
  "os_Create E p w =
     (let w1 = log (Create p) w in
      case fs_fault E w (Create p) of
        Some err \<Rightarrow> (Some err, w1)
      | None \<Rightarrow>
          (case map_of (files w) p of
             Some Dir \<Rightarrow> (Some (Errorf (''open '' @ p @ '': is a directory'')), w1)
           | Some (File c m) \<Rightarrow> (None, setFiles (AList.update p (File [] m) (files w)) w1)
           | None \<Rightarrow> (None, setFiles (AList.update p (File [] 438) (files w)) w1)))"

text \<open>Writing to the open file at \<open>p\<close>: the data is appended to what was written before.\<close>

definition file_Write :: "env \<Rightarrow> string \<Rightarrow> string \<Rightarrow> world \<Rightarrow> error option \<times> world" where
  "file_Write E p data w =
     (let w1 = log (Write p data) w in
      case fs_fault E w (Write p data) of
        Some err \<Rightarrow> (Some err, w1)
      | None \<Rightarrow>
          (case map_of (files w) p of
             Some (File c m) \<Rightarrow> (None, setFiles (AList.update p (File (c @ data) m) (files w)) w1)
           | Some Dir \<Rightarrow> (Some (Errorf (''write '' @ p @ '': bad file descriptor'')), w1)
           | None \<Rightarrow> (Some (Errorf (''write '' @ p @ '': bad file descriptor'')), w1)))"

text \<open>\<open>io.Copy(out, resp.Body)\<close>: what the body delivers is written, then a read error of
  the body is returned.\<close>

definition io_Copy :: "env \<Rightarrow> string \<Rightarrow> http_response \<Rightarrow> world \<Rightarrow> error option \<times> world" where
  "io_Copy E p resp w =
     (case file_Write E p (body resp) w of
        (Some err, w1) \<Rightarrow> (Some err, w1)
      | (None, w1) \<Rightarrow> (body_err resp, w1))"

definition os_Chmod :: "env \<Rightarrow> string \<Rightarrow> nat \<Rightarrow> world \<Rightarrow> error option \<times> world" where
  "os_Chmod E p m w =
     (let w1 = log (Chmod p m) w in
      case fs_fault E w (Chmod p m) of
        Some err \<Rightarrow> (Some err, w1)
      | None \<Rightarrow>
          (case map_of (files w) p of
             Some (File c m0) \<Rightarrow> (None, setFiles (AList.update p (File c m) (files w)) w1)
           | Some Dir \<Rightarrow> (None, w1)
           | None \<Rightarrow>
               (Some (GoError (''chmod '' @ p @ '': no such file or directory'') True), w1)))"



subsection \<open>Subprocesses\<close>

text \<open>Sequencing of steps that stop at the first non-nil error.\<close>

definition andThen ::
  "error option \<times> world \<Rightarrow> (world \<Rightarrow> error option \<times> world) \<Rightarrow> error option \<times> world" where
  "andThen r k = (case r of (Some err, w) \<Rightarrow> (Some err, w) | (None, w) \<Rightarrow> k w)"

definition runCmd :: "env \<Rightarrow> string list \<Rightarrow> string list \<Rightarrow> world \<Rightarrow> error option \<times> world" where
  "runCmd E args cmdEnv w =
     (let w1 = log (ExecCmd args cmdEnv) w in
      case exec_CombinedOutput E w args cmdEnv of
        (out, Some err) \<Rightarrow>
          (Some err, Printf (''Output from %q:'' @ nl @ ''%s'' @ nl) [Str (Join args '' ''), Str out] w1)
      | (out, None) \<Rightarrow> (None, w1))"

definition run :: "env \<Rightarrow> string \<Rightarrow> string list \<Rightarrow> world \<Rightarrow> error option \<times> world" where
  "run E path args w = runCmd E (path # args) [] w"

definition startExecutor :: "env \<Rightarrow> world \<Rightarrow> error option \<times> world" where
  "startExecutor E w =
     andThen (run E ''systemctl'' [''daemon-reload''] w) (\<lambda>w1.
     andThen (run E ''systemctl'' [''enable'', executorService] w1) (\<lambda>w2.
     run E ''systemctl'' [''start'', executorService] w2))"

definition stopExecutor :: "env \<Rightarrow> world \<Rightarrow> error option \<times> world" where
  "stopExecutor E w =
     andThen (run E ''systemctl'' [''disable'', executorService] w) (\<lambda>w1.
     run E ''systemctl'' [''stop'', executorService] w1)"

definition cleanupExecutor :: "env \<Rightarrow> world \<Rightarrow> error option \<times> world" where
  "cleanupExecutor E w =
     runCmd E [executorPath, ''cleanup'']
       [Join [''CONFIG_PATH'', executorConfigPath E] ''=''] w"

subsection \<open>Downloading the binary\<close>

definition getLatestVersion :: "env \<Rightarrow> world \<Rightarrow> (error + string) \<times> world" where
  "getLatestVersion E w =
     (let w1 = log (HttpGet versionURL) w in
      case http_Get E w versionURL of
        Inl err \<Rightarrow> (Inl err, w1)
      | Inr resp \<Rightarrow>
          (case body_err resp of
             Some err \<Rightarrow> (Inl err, w1)
           | None \<Rightarrow> (Inr (TrimSpace (body resp)), w1)))"

definition downloadExecutor :: "env \<Rightarrow> world \<Rightarrow> error option \<times> world" where
  "downloadExecutor E w =
     (case getLatestVersion E w of
        (Inl err, w1) \<Rightarrow> (Some err, w1)
      | (Inr version, w1) \<Rightarrow>
          (let w2 = log (HttpGet (executorURL version)) w1 in
           case http_Get E w1 (executorURL version) of
             Inl err \<Rightarrow> (Some err, w2)
           | Inr resp \<Rightarrow>
               andThen (os_Create E executorPath w2) (\<lambda>w3.
               andThen (io_Copy E executorPath resp w3) (\<lambda>w4.
               os_Chmod E executorPath 448 w4))))"

subsection \<open>The executor commands\<close>

definition succeed :: "env \<Rightarrow> string \<Rightarrow> world \<Rightarrow> error option \<times> world" where
  "succeed E msg w = (None, if \<not> quiet E then Println msg w else w)"

definition executorInstall :: "env \<Rightarrow> string \<Rightarrow> string \<Rightarrow> world \<Rightarrow> error option \<times> world" where
  "executorInstall E cluster storageDir w =
     (case os_Stat w executorPath of
        None \<Rightarrow>
          (Some (Errorf (''executor is already installed.'' @ nl @ ''Run '' @ dq @ ''upgrade'' @ dq @
                         '' to install the latest version or run '' @ dq @ ''uninstall'' @ dq @
                         '' before installing.'')), w)
      | Some notInstalled \<Rightarrow>
          andThen (beaker_Cluster_Get E w cluster, log (ClusterGet cluster) w) (\<lambda>w1.
          andThen (os_MkdirAll E (executorConfigDir E) 511 w1) (\<lambda>w2.
          andThen (ioutil_WriteFile E (executorTokenPath E) (UserToken E) 384 w2) (\<lambda>w3.
          andThen (os_Create E (executorConfigPath E) w3) (\<lambda>w4.
          andThen (file_Write E (executorConfigPath E)
                     (configTemplate \<lparr>cfg_StoragePath = storageDir,
                                      cfg_TokenPath = executorTokenPath E,
                                      cfg_Cluster = cluster\<rparr>) w4) (\<lambda>w5.
          andThen (os_Create E executorSystemdPath w5) (\<lambda>w6.
          andThen (file_Write E executorSystemdPath
                     (systemdTemplate \<lparr>BinaryPath = executorPath,
                                       ConfigPath = executorConfigPath E\<rparr>) w6) (\<lambda>w7.
          andThen (downloadExecutor E w7) (\<lambda>w8.
          andThen (startExecutor E w8) (\<lambda>w9.
          succeed E ''Executor installed and started'' w9))))))))))"

definition executorRestart :: "env \<Rightarrow> world \<Rightarrow> error option \<times> world" where
  "executorRestart E w =
     andThen (stopExecutor E w) (\<lambda>w1.
     andThen (startExecutor E w1) (\<lambda>w2.
     succeed E ''Executor restarted'' w2))"

definition executorStart :: "env \<Rightarrow> world \<Rightarrow> error option \<times> world" where
  "executorStart E w =
     andThen (startExecutor E w) (\<lambda>w1. succeed E ''Executor started'' w1)"

definition stopPrompt :: string where
  "stopPrompt = ''Stopping the executor will kill all running tasks.'' @ nl @
                ''Are you sure you want to stop the executor?''"

definition executorStop :: "env \<Rightarrow> world \<Rightarrow> error option \<times> world" where
  "executorStop E w =
     (let w0 = log (Confirm stopPrompt []) w in
      case confirm E w stopPrompt [] of
        Inl err \<Rightarrow> (Some err, w0)
      | Inr confirmed \<Rightarrow>
          if \<not> confirmed then (None, w0)
          else
            andThen (stopExecutor E w0) (\<lambda>w1.
            andThen (cleanupExecutor E w1) (\<lambda>w2.
            succeed E ''Executor stopped'' w2)))"

definition uninstallPrompt :: string where
  "uninstallPrompt = ''Uninstalling the executor will kill all running tasks'' @ nl @
                     ''and delete all data in %q.'' @ nl @ nl @
                     ''Are you sure you want to uninstall the executor?''"


text \<open>A step whose error is printed to the error stream and then dropped.\<close>

definition warnOnly :: "string \<Rightarrow> error option \<times> world \<Rightarrow> world" where
  "warnOnly fmt r =
     (case r of
        (Some err, w) \<Rightarrow> Fprintf_Stderr fmt [ErrV err] w
      | (None, w) \<Rightarrow> w)"


definition executorUpgrade :: "env \<Rightarrow> world \<Rightarrow> error option \<times> world" where
  "executorUpgrade E w =
     andThen (stopExecutor E w) (\<lambda>w1.
     andThen (downloadExecutor E w1) (\<lambda>w2.
     andThen (startExecutor E w2) (\<lambda>w3.
     succeed E ''Executor upgraded'' w3)))"

section \<open>Notions used to state the properties\<close>

text \<open>The events a command added to the trace.\<close>

definition since :: "world \<Rightarrow> world \<Rightarrow> event list" where
  "since w w' = drop (length (trace w)) (trace w')"


subsection \<open>A sample environment\<close>

definition emptyWorld :: world where
  "emptyWorld = \<lparr>files = [], trace = [], stdout = [], stderr = []\<rparr>"

definition sampleLimits :: resource_limits where
  "sampleLimits = \<lparr>CPUCount = 4, GPUs = [''0'', ''1''], Memory = 8 * GiB\<rparr>"

definition sampleSession :: "execution_state \<Rightarrow> session" where
  "sampleSession st = \<lparr>ID = ''01F2ABC'', State = st, Limits = Some sampleLimits\<rparr>"

definition sampleUser :: os_user where
  "sampleUser = \<lparr>Uid = ''1000'', Gid = ''1000'', HomeDir = ''/home/ai2''\<rparr>"

text \<open>Every collaborator answers without error; the session is scheduled and started.\<close>

definition sampleEnv :: env where
  "sampleEnv =
     \<lparr>quiet = True,
      UserToken = ''token'',
      executorConfigDir = ''/etc/beaker'',
      executorConfigPath = ''/etc/beaker/config.yml'',
      select_done = (\<lambda>w. False),
      ctx_Err = (\<lambda>w. Errorf ''context canceled''),
      time_Now = (\<lambda>w. 1619000000),
      getCurrentNode = (\<lambda>w. Inr ''node1''),
      beaker_CreateSession =
        (\<lambda>w spec. Inr (sampleSession ExecutionState_empty)),
      beaker_Session_Get =
        (\<lambda>w s. Inr (sampleSession
                       (ExecutionState_empty\<lparr>Scheduled := Some 1, Started := Some 2\<rparr>))),
      beaker_Session_Patch =
        (\<lambda>w s p. Inr (sampleSession ExecutionState_empty)),
      beaker_Cluster_Get = (\<lambda>w c. None),
      user_Current = (\<lambda>w. Inr sampleUser),
      docker_NewRuntime = (\<lambda>w. None),
      rt_PullImage = (\<lambda>w t q. None),
      rt_CreateContainer = (\<lambda>w opts. Inr ''c1''),
      rt_ListContainers = (\<lambda>w. Inr [''c1'']),
      container_Start = (\<lambda>w c. None),
      container_Attach = (\<lambda>w c. None),
      container_Exec = (\<lambda>w c cmd. None),
      container_Info = (\<lambda>w c. Inr [(sessionContainerLabel, ''01F2ABC'')]),
      printSessions = (\<lambda>w ss. None),
      confirm = (\<lambda>w fmt args. Inr True),
      getExecutorConfig = (\<lambda>w. Inr \<lparr>StoragePath = ''/var/beaker''\<rparr>),
      http_Get = (\<lambda>w url. Inr \<lparr>body = ''v1'', body_err = None\<rparr>),
      exec_CombinedOutput = (\<lambda>w args cmdEnv. ([], None)),
      fs_fault = (\<lambda>w ev. None)\<rparr>"

text \<open>The sample environment with the fetched session in a given state.\<close>

definition sessionIn :: "execution_state \<Rightarrow> env" where
  "sessionIn st = sampleEnv\<lparr>beaker_Session_Get := \<lambda>w s. Inr (sampleSession st)\<rparr>"



text \<open>The calls the scheduling wait makes.\<close>

definition isWaitEvent :: "event \<Rightarrow> bool" where
  "isWaitEvent ev =
     (case ev of
        NewTimer d \<Rightarrow> True
      | TimerReset d \<Rightarrow> True
      | SessionGet s r \<Rightarrow> True
      | _ \<Rightarrow> False)"

definition scheduledState :: execution_state where
  "scheduledState = ExecutionState_empty\<lparr>Scheduled := Some 1\<rparr>"

text \<open>The container spec of the sample session.\<close>

definition sampleOpts :: container_opts where
  "sampleOpts =
     \<lparr>Name = ''session-01f2abc'', Image = ''allenai/base'', Command = None,
      Labels = [(''beaker.org/session'', ''01F2ABC''), (''beaker.org/gpus'', ''0,1'')],
      Env = [(''HOME'', ''/home/ai2'')],
      Mounts = [\<lparr>HostPath = ''/home/ai2'', ContainerPath = ''/home/ai2''\<rparr>],
      opts_CPUCount = 4, opts_GPUs = [''0'', ''1''], opts_Memory = 8589934592,
      Interactive = True, User = ''1000:1000'', WorkingDir = ''/home/ai2''\<rparr>"

text \<open>
  The world in which pass \<open>k\<close> of the wait's loop enters its \<open>select\<close>, when none of the
  earlier passes returned: the timer has been created, and each earlier pass has fetched the
  session, printed its dot and reset the timer.
\<close>

fun pollWorld :: "env \<Rightarrow> string \<Rightarrow> world \<Rightarrow> nat \<Rightarrow> world" where
  "pollWorld E session w 0 =
     log (NewTimer 0)
       (if quiet E then w else Printf ''Waiting for session to be scheduled'' [] w)"
| "pollWorld E session w (Suc k) =
     (let wk = pollWorld E session w k;
          w1 = log (SessionGet session (beaker_Session_Get E wk session)) wk
      in log (TimerReset Second) (if quiet E then w1 else Printf ''.'' [] w1))"

text \<open>Pass \<open>k\<close> takes the timer case and fetches a session that is not scheduled yet.\<close>

definition stillPending :: "env \<Rightarrow> string \<Rightarrow> world \<Rightarrow> nat \<Rightarrow> bool" where
  "stillPending E session w k =
     (\<not> select_done E (pollWorld E session w k) \<and>
      (case beaker_Session_Get E (pollWorld E session w k) session of
         Inl err \<Rightarrow> False
       | Inr info \<Rightarrow> Scheduled (State info) = None))"

definition isSessionGet :: "event \<Rightarrow> bool" where
  "isSessionGet ev = (case ev of SessionGet s r \<Rightarrow> True | _ \<Rightarrow> False)"

definition isSessionPatch :: "event \<Rightarrow> bool" where
  "isSessionPatch ev = (case ev of SessionPatch s p \<Rightarrow> True | _ \<Rightarrow> False)"

text \<open>The sample scheduler that reports the session scheduled from its \<open>m\<close>-th answer on.\<close>

definition scheduledAfter :: "nat \<Rightarrow> env" where
  "scheduledAfter m =
     sampleEnv\<lparr>beaker_Session_Get :=
       \<lambda>w s. Inr (sampleSession
                    (if length (filter isSessionGet (trace w)) < m
                     then ExecutionState_empty else scheduledState))\<rparr>"

text \<open>The sample scheduler whose second answer is an error.\<close>

definition fetchFailsSecond :: env where
  "fetchFailsSecond =
     sampleEnv\<lparr>beaker_Session_Get :=
       \<lambda>w s. if length (filter isSessionGet (trace w)) < 1
              then Inr (sampleSession ExecutionState_empty)
              else Inl (Errorf ''connection reset'')\<rparr>"

definition neverScheduled :: env where
  "neverScheduled = sessionIn ExecutionState_empty"

text \<open>
  The sample environment in which the session stays unscheduled and the caller's context
  is cancelled after the first fetch.
\<close>

definition interrupted :: env where
  "interrupted =
     neverScheduled\<lparr>select_done := \<lambda>w. 1 \<le> length (filter isSessionGet (trace w))\<rparr>"

definition sampleSpec :: session_spec where
  "sampleSpec = \<lparr>spec_Name = [], spec_Node = ''node1'',
                  spec_Resources = Some \<lparr>GPUCount = 0\<rparr>\<rparr>"

text \<open>\<open>adds P w w'\<close>: from \<open>w\<close> to \<open>w'\<close> the trace grew by calls that all satisfy \<open>P\<close>.\<close>

definition adds :: "(event \<Rightarrow> bool) \<Rightarrow> world \<Rightarrow> world \<Rightarrow> bool" where
  "adds P w w' = (\<exists>evs. trace w' = trace w @ evs \<and> (\<forall>ev \<in> set evs. P ev))"

text \<open>The path a file operation acts on.\<close>

definition fileOf :: "event \<Rightarrow> string option" where
  "fileOf ev =
     (case ev of
        MkdirAll p perm \<Rightarrow> Some p
      | WriteFile p d perm \<Rightarrow> Some p
      | Create p \<Rightarrow> Some p
      | Write p d \<Rightarrow> Some p
      | Chmod p m \<Rightarrow> Some p
      | Remove p \<Rightarrow> Some p
      | RemoveAll p \<Rightarrow> Some p
      | _ \<Rightarrow> None)"

text \<open>\<open>sameFile q w w'\<close>: the file map holds the same at path \<open>q\<close> in both worlds.\<close>

definition sameFile :: "string \<Rightarrow> world \<Rightarrow> world \<Rightarrow> bool" where
  "sameFile q w w' = (map_of (files w') q = map_of (files w) q)"

text \<open>The calls of an upgrade: \<open>systemctl\<close>, HTTP fetches, operations on the binary.\<close>

definition upgradeCall :: "event \<Rightarrow> bool" where
  "upgradeCall ev =
     (case ev of
        ExecCmd args cmdEnv \<Rightarrow> take 1 args = [''systemctl'']
      | HttpGet url \<Rightarrow> True
      | _ \<Rightarrow> fileOf ev = Some executorPath)"

text \<open>A node on which the executor is installed.\<close>

definition installedWorld :: world where
  "installedWorld =
     emptyWorld\<lparr>files :=
       [(''/usr/bin/beaker-executor'', File ''old binary'' 448),
        (''/etc/beaker'', Dir),
        (''/etc/beaker/executor-token'', File ''token'' 384),
        (''/etc/beaker/config.yml'', File ''storagePath: /var/beaker'' 438),
        (''/etc/systemd/system/beaker-executor.service'', File ''[Unit]'' 438),
        (''/var/beaker'', Dir),
        (''/var/beaker/datasets'', File ''data'' 420)]\<rparr>"

definition unknownCluster :: env where
  "unknownCluster = sampleEnv\<lparr>beaker_Cluster_Get := \<lambda>w c. Some (Errorf ''cluster not found'')\<rparr>"






text \<open>The world of an uninstall after confirmation, service stop and cleanup.\<close>

definition afterTeardown :: "env \<Rightarrow> executor_config \<Rightarrow> world \<Rightarrow> world" where
  "afterTeardown E config w =
     (let w1 = log (Confirm uninstallPrompt [Str (StoragePath config)])
                 (log GetExecutorConfig w);
          w2 = warnOnly (''error stopping executor: %v'' @ nl) (stopExecutor E w1)
      in warnOnly (''error cleaning up executor: %v'' @ nl) (cleanupExecutor E w2))"


text \<open>A node on which the executor's cleanup subcommand fails.\<close>

definition cleanupFails :: env where
  "cleanupFails =
     sampleEnv\<lparr>exec_CombinedOutput :=
       \<lambda>w args cmdEnv. if args = [executorPath, ''cleanup'']
                         then (''cannot connect to the Docker daemon'', Some (Errorf ''exit status 1''))
                         else ([], None)\<rparr>"

section \<open>Properties\<close>

subsection \<open>Traces\<close>

lemma trace_log [simp]: "trace (log ev w) = trace w @ [ev]"
  by (simp add: log_def)

lemma trace_Printf [simp]: "trace (Printf fmt args w) = trace w"
  by (simp add: Printf_def)

lemma trace_Println [simp]: "trace (Println msg w) = trace w"
  by (simp add: Println_def)

lemma trace_Fprintf_Stderr [simp]: "trace (Fprintf_Stderr fmt args w) = trace w"
  by (simp add: Fprintf_Stderr_def)

lemma trace_setFiles [simp]: "trace (setFiles fs w) = trace w"
  by (simp add: setFiles_def)

subsection \<open>Attach and exec errors\<close>

text \<open>
  C2, as amended. \<open>handleAttachErr\<close> returns nil for every error whose message begins with
  \<open>exited with code\<close> followed by a space, whatever follows (130, 1 or anything else);
  it returns every other error unchanged, and nil for nil.
\<close>

theorem handleAttachErr_prefix:
  "(Error e = ''exited with code '' @ code \<longrightarrow> handleAttachErr (Some e) = None)
   \<and> ((\<forall>code. Error e \<noteq> ''exited with code '' @ code) \<longrightarrow> handleAttachErr (Some e) = Some e)
   \<and> handleAttachErr None = None"
  by (auto simp: handleAttachErr_def HasPrefix_def prefix_def)

theorem handleAttachErr_prefix_witness:
  "handleAttachErr (Some (Errorf ''exited with code 130'')) = None
   \<and> handleAttachErr (Some (Errorf ''no such container'')) = Some (Errorf ''no such container'')"
  using handleAttachErr_prefix [of "Errorf ''exited with code 130''" "''130''"]
        handleAttachErr_prefix [of "Errorf ''no such container''"]
  by (simp add: Errorf_def)

text \<open>
  C2 as stated fails: the error \<open>exited with code 1\<close> is not propagated, it is dropped.
\<close>

theorem handleAttachErr_code_1_dropped:
  "handleAttachErr (Some (Errorf ''exited with code 1'')) = None"
  by (simp add: handleAttachErr_def HasPrefix_def Errorf_def)

subsection \<open>Locating the running container\<close>


subsection \<open>Updating a session\<close>

text \<open>
  C10. \<open>session update\<close> without \<open>--cancel\<close> still sends a patch to the remote scheduler:
  the first call it adds to the trace is a session patch whose state is the empty execution
  state, whose cancellation timestamp is nil.
\<close>

theorem sessionUpdate_without_cancel_patches:
  "\<exists>rest. trace (snd (sessionUpdate E False session w)) =
      trace w @ SessionPatch session \<lparr>patch_State = Some ExecutionState_empty\<rparr> # rest
    \<and> Canceled ExecutionState_empty = None"
  by (auto simp: sessionUpdate_def Let_def ExecutionState_empty_def split: sum.split)

subsection \<open>Scenario: exec against sessions that are not running\<close>

lemma sessionIn_Get [simp]: "beaker_Session_Get (sessionIn st) w s = Inr (sampleSession st)"
  by (simp add: sessionIn_def sampleEnv_def)


subsection \<open>The calls of the scheduling wait and of the launch\<close>

lemma since_append: "trace w' = trace w @ evs \<Longrightarrow> since w w' = evs"
  by (simp add: since_def)

lemma since_self [simp]: "since w w = []"
  by (simp add: since_def)

lemma awaitLoop_trace:
  "awaitLoop E s fuel a w = Some (r, w1) \<Longrightarrow>
   \<exists>evs. trace w1 = trace w @ evs \<and> (\<forall>ev \<in> set evs. isWaitEvent ev)"
proof (induction fuel arbitrary: a w)
  case 0
  then show ?case by simp
next
  case (Suc fuel)
  show ?case
  proof (cases "select_done E w")
    case True
    with Suc.prems show ?thesis by simp
  next
    case notDone: False
    show ?thesis
    proof (cases "beaker_Session_Get E w s")
      case (Inl err)
      with notDone Suc.prems show ?thesis by (auto simp: isWaitEvent_def)
    next
      case (Inr info)
      show ?thesis
      proof (cases "Scheduled (State info) = None")
        case False
        with notDone Inr Suc.prems show ?thesis
          by (auto simp: isWaitEvent_def Let_def split: if_splits)
      next
        case True
        let ?w1 = "log (SessionGet s (Inr info)) w"
        let ?w2 = "log (TimerReset Second) (if quiet E then ?w1 else Printf ''.'' [] ?w1)"
        from notDone Inr True Suc.prems
        have "awaitLoop E s fuel (a + 1) ?w2 = Some (r, w1)"
          by (simp add: Let_def)
        from Suc.IH [OF this] obtain evs where
          evs: "trace w1 = trace ?w2 @ evs" "\<forall>ev \<in> set evs. isWaitEvent ev"
          by blast
        have "trace w1 = trace w @ (SessionGet s (Inr info) # TimerReset Second # evs)"
          using evs(1) by simp
        moreover have "\<forall>ev \<in> set (SessionGet s (Inr info) # TimerReset Second # evs). isWaitEvent ev"
          using evs(2) by (simp add: isWaitEvent_def)
        ultimately show ?thesis by blast
      qed
    qed
  qed
qed

lemma awaitSessionSchedule_trace:
  assumes "awaitSessionSchedule E s fuel w = Some (r, w1)"
  shows "\<exists>evs. trace w1 = trace w @ evs \<and> (\<forall>ev \<in> set evs. isWaitEvent ev)"
proof -
  let ?w0 = "log (NewTimer 0)
       (if quiet E then w else Printf ''Waiting for session to be scheduled'' [] w)"
  from assms have "awaitLoop E s fuel 0 ?w0 = Some (r, w1)"
    by (simp add: awaitSessionSchedule_def)
  from awaitLoop_trace [OF this] obtain evs where
    evs: "trace w1 = trace ?w0 @ evs" "\<forall>ev \<in> set evs. isWaitEvent ev"
    by blast
  have "trace w1 = trace w @ (NewTimer 0 # evs)"
    using evs(1) by simp
  moreover have "\<forall>ev \<in> set (NewTimer 0 # evs). isWaitEvent ev"
    using evs(2) by (simp add: isWaitEvent_def)
  ultimately show ?thesis by blast
qed

lemma launch_trace:
  "\<exists>evs. trace (snd (launch E opts w)) = trace w @ evs
      \<and> (\<forall>x. CreateContainer x \<in> set evs \<longrightarrow> x = opts)"
  by (auto simp: launch_def Let_def split: option.split sum.split)

lemma ToLower_append: "ToLower (xs @ ys) = ToLower xs @ ToLower ys"
  by (simp add: ToLower_def)

lemma ToLower_session_prefix: "ToLower ''session-'' = ''session-''"
  by code_simp

lemma containerOpts_Name:
  "Name (containerOpts w session limits u imageTag command) = ''session-'' @ ToLower (ID session)"
proof -
  have "Name (containerOpts w session limits u imageTag command)
          = ToLower (''session-'' @ ID session)"
    by (simp add: containerOpts_def Let_def)
  also have "\<dots> = ToLower ''session-'' @ ToLower (ID session)"
    by (rule ToLower_append)
  finally show ?thesis
    by (simp only: ToLower_session_prefix)
qed

lemma containerOpts_Labels:
  "map_of (Labels (containerOpts w session limits u imageTag command)) sessionContainerLabel
     = Some (ID session)
   \<and> map_of (Labels (containerOpts w session limits u imageTag command)) sessionGPULabel
     = Some (Join (GPUs limits) '','')"
  by (simp add: containerOpts_def Let_def sessionContainerLabel_def sessionGPULabel_def)

subsection \<open>The container spec\<close>

text \<open>
  C9. Every container spec \<open>startSession\<close> hands to the runtime driver is named
  \<open>session-\<close> followed by the lower-cased ID of the scheduled session, and its labels
  hold the session ID under \<open>beaker.org/session\<close> and the GPU list joined by commas under
  \<open>beaker.org/gpus\<close>, which is the empty string when the list is empty.
\<close>

theorem startSession_container_spec:
  assumes await: "awaitSessionSchedule E sessionID fuel w = Some (Inr session, w1)"
      and start: "startSession E sessionID imageTag command fuel w = Some (r, w')"
      and built: "CreateContainer opts \<in> set (since w w')"
  shows "Name opts = ''session-'' @ ToLower (ID session)
       \<and> map_of (Labels opts) sessionContainerLabel = Some (ID session)
       \<and> (\<exists>limits. Limits session = Some limits
            \<and> map_of (Labels opts) sessionGPULabel = Some (Join (GPUs limits) '','')
            \<and> (GPUs limits = [] \<longrightarrow> map_of (Labels opts) sessionGPULabel = Some []))"
proof -
  from awaitSessionSchedule_trace [OF await] obtain evs where
    evs: "trace w1 = trace w @ evs" "\<forall>ev \<in> set evs. isWaitEvent ev"
    by blast
  have noCreate: "CreateContainer opts \<notin> set evs"
    using evs(2) by (auto simp: isWaitEvent_def)
  show ?thesis
  proof (cases "Limits session")
    case None
    with await start have "w' = w1"
      by (simp add: startSession_def)
    with built evs(1) noCreate show ?thesis
      by (simp add: since_append)
  next
    case (Some limits)
    define w2 where "w2 = (if \<not> quiet E
                          then Printf (''Reserved %d GPU, %v CPU, %.1fGiB memory'' @ nl)
                                 [Num (int (length (GPUs limits))), Flt (CPUCount limits),
                                  FltDiv (Memory limits) GiB] w1
                          else w1)"
    have tr2: "trace (log UserCurrent w2) = trace w @ evs @ [UserCurrent]"
      using evs(1) by (simp add: w2_def)
    show ?thesis
    proof (cases "user_Current E w2")
      case (Inl err)
      with await start Some have "w' = log UserCurrent w2"
        by (simp add: startSession_def w2_def Let_def)
      with built tr2 noCreate show ?thesis
        by (simp add: since_append)
    next
      case (Inr u)
      let ?opts = "containerOpts (log UserCurrent w2) session limits u imageTag command"
      from await start Some Inr
      have w': "w' = snd (launch E ?opts (log UserCurrent w2))"
        by (auto simp: startSession_def w2_def Let_def split: prod.splits)
      from launch_trace [of E ?opts "log UserCurrent w2"] obtain evs2 where
        evs2: "trace w' = trace (log UserCurrent w2) @ evs2"
              "\<forall>x. CreateContainer x \<in> set evs2 \<longrightarrow> x = ?opts"
        unfolding w' by blast
      have "since w w' = evs @ [UserCurrent] @ evs2"
        using evs2(1) tr2 by (simp add: since_append)
      with built noCreate evs2(2) have "opts = ?opts"
        by auto
      with Some show ?thesis
        using containerOpts_Name [of "log UserCurrent w2" session limits u imageTag command]
              containerOpts_Labels [of "log UserCurrent w2" session limits u imageTag command]
        by auto
    qed
  qed
qed




theorem startSession_container_spec_witness:
  "CreateContainer sampleOpts \<in> set (since emptyWorld
      (snd (the (startSession (sessionIn scheduledState) ''01F2ABC'' ''allenai/base'' None 1
                   emptyWorld))))
   \<and> Name sampleOpts = ''session-'' @ ToLower ''01F2ABC''
   \<and> map_of (Labels sampleOpts) sessionGPULabel = Some (Join [''0'', ''1''] '','')"
proof -
  let ?run = "startSession (sessionIn scheduledState) ''01F2ABC'' ''allenai/base'' None 1
                emptyWorld"
  have h1: "awaitSessionSchedule (sessionIn scheduledState) ''01F2ABC'' 1 emptyWorld =
              Some (Inr (sampleSession scheduledState),
                    log (SessionGet ''01F2ABC'' (Inr (sampleSession scheduledState)))
                      (log (NewTimer 0) emptyWorld))"
    by code_simp
  have h2: "?run = Some (fst (the ?run), snd (the ?run))"
    by code_simp
  have h3: "CreateContainer sampleOpts \<in> set (since emptyWorld (snd (the ?run)))"
    by code_simp
  have "ID (sampleSession scheduledState) = ''01F2ABC''"
       "Limits (sampleSession scheduledState) = Some sampleLimits"
       "GPUs sampleLimits = [''0'', ''1'']"
    by (simp_all add: sampleSession_def sampleLimits_def)
  with startSession_container_spec [OF h1 h2 h3] h3 show ?thesis
    by auto
qed

subsection \<open>The passes of the scheduling wait\<close>

lemma awaitLoop_pending:
  "(\<forall>k<n. stillPending E s w (j + k)) \<Longrightarrow>
   awaitLoop E s (n + fuel) a (pollWorld E s w j) =
   awaitLoop E s fuel (a + n) (pollWorld E s w (j + n))"
proof (induction n arbitrary: j a)
  case 0
  then show ?case by simp
next
  case (Suc n)
  from Suc.prems have "stillPending E s w (j + 0)" by blast
  then obtain info where
    p: "\<not> select_done E (pollWorld E s w j)"
       "beaker_Session_Get E (pollWorld E s w j) s = Inr info"
       "Scheduled (State info) = None"
    by (auto simp: stillPending_def split: sum.splits)
  have step: "awaitLoop E s (Suc n + fuel) a (pollWorld E s w j) =
              awaitLoop E s (n + fuel) (a + 1) (pollWorld E s w (Suc j))"
    using p by (simp add: Let_def)
  have "\<forall>k<n. stillPending E s w (Suc j + k)"
    using Suc.prems by (metis Suc_less_eq add_Suc_shift)
  from Suc.IH [OF this, of "a + 1"] step show ?case
    by simp
qed

lemma awaitSessionSchedule_pollWorld:
  "awaitSessionSchedule E s fuel w = awaitLoop E s fuel 0 (pollWorld E s w 0)"
  by (simp add: awaitSessionSchedule_def)

lemma await_pending_skip:
  assumes "\<forall>k<n. stillPending E s w k"
  shows "awaitSessionSchedule E s (n + fuel) w = awaitLoop E s fuel n (pollWorld E s w n)"
  using awaitLoop_pending [of n E s w 0 fuel 0] assms
  by (simp add: awaitSessionSchedule_pollWorld)

lemma await_pending_None:
  assumes "\<forall>k<n. stillPending E s w k" and "fuel \<le> n"
  shows "awaitSessionSchedule E s fuel w = None"
proof -
  from assms have "\<forall>k<fuel. stillPending E s w k" by simp
  from await_pending_skip [OF this, of 0] show ?thesis by simp
qed

lemma trace_pollWorld:
  "trace (pollWorld E s w n) =
     trace w @ NewTimer 0 #
       concat (map (\<lambda>k. [SessionGet s (beaker_Session_Get E (pollWorld E s w k) s),
                           TimerReset Second]) [0..<n])"
  by (induction n) (simp_all add: Let_def)

lemma await_returns_at:
  assumes pend: "\<forall>k<n. stillPending E s w k" and fuel: "n < fuel"
  shows "awaitSessionSchedule E s fuel w =
           awaitLoop E s (Suc (fuel - Suc n)) n (pollWorld E s w n)"
proof -
  from fuel have "fuel = n + Suc (fuel - Suc n)" by simp
  with await_pending_skip [OF pend, of "Suc (fuel - Suc n)"] show ?thesis by simp
qed


subsection \<open>The scheduling wait\<close>

text \<open>
  C6. Suppose the first \<open>n\<close> passes of the wait each fetch a session that is not yet
  scheduled. Then the wait has not returned after \<open>n\<close> passes, however large \<open>n\<close> is; the
  calls it has made are the creation of the timer with delay zero, followed by \<open>n\<close> times a
  fetch and a reset of the timer to exactly one second; if the next fetch yields a
  scheduled session the wait returns it, and if the next fetch fails the wait returns that
  error, with no further call. If every pass finds the session unscheduled, the wait
  never returns.
\<close>

theorem awaitSessionSchedule_polling:
  "((\<forall>k<n. stillPending E session w k) \<longrightarrow>
      (\<forall>fuel\<le>n. awaitSessionSchedule E session fuel w = None)
    \<and> trace (pollWorld E session w n) =
        trace w @ NewTimer 0 #
          concat (map (\<lambda>k. [SessionGet session
                                (beaker_Session_Get E (pollWorld E session w k) session),
                              TimerReset Second]) [0..<n])
    \<and> (\<forall>info fuel.
          \<not> select_done E (pollWorld E session w n)
          \<and> beaker_Session_Get E (pollWorld E session w n) session = Inr info
          \<and> Scheduled (State info) \<noteq> None \<and> n < fuel \<longrightarrow>
          (\<exists>w'. awaitSessionSchedule E session fuel w = Some (Inr info, w')
              \<and> trace w' = trace (pollWorld E session w n) @ [SessionGet session (Inr info)]))
    \<and> (\<forall>err fuel.
          \<not> select_done E (pollWorld E session w n)
          \<and> beaker_Session_Get E (pollWorld E session w n) session = Inl err
          \<and> n < fuel \<longrightarrow>
          awaitSessionSchedule E session fuel w =
            Some (Inl err, log (SessionGet session (Inl err)) (pollWorld E session w n))))
   \<and> ((\<forall>k. stillPending E session w k) \<longrightarrow>
        (\<forall>fuel. awaitSessionSchedule E session fuel w = None))"
proof (intro conjI impI allI)
  fix fuel
  assume "\<forall>k<n. stillPending E session w k" and "fuel \<le> n"
  then show "awaitSessionSchedule E session fuel w = None"
    by (rule await_pending_None)
next
  show "trace (pollWorld E session w n) =
        trace w @ NewTimer 0 #
          concat (map (\<lambda>k. [SessionGet session
                                (beaker_Session_Get E (pollWorld E session w k) session),
                              TimerReset Second]) [0..<n])"
    by (rule trace_pollWorld)
next
  fix info fuel
  assume pend: "\<forall>k<n. stillPending E session w k"
    and now: "\<not> select_done E (pollWorld E session w n)
          \<and> beaker_Session_Get E (pollWorld E session w n) session = Inr info
          \<and> Scheduled (State info) \<noteq> None \<and> n < fuel"
  from now have "n < fuel" by simp
  from await_returns_at [OF pend this] now
  show "\<exists>w'. awaitSessionSchedule E session fuel w = Some (Inr info, w')
              \<and> trace w' = trace (pollWorld E session w n) @ [SessionGet session (Inr info)]"
    by (simp add: Let_def)
next
  fix err fuel
  assume pend: "\<forall>k<n. stillPending E session w k"
    and now: "\<not> select_done E (pollWorld E session w n)
          \<and> beaker_Session_Get E (pollWorld E session w n) session = Inl err
          \<and> n < fuel"
  from now have "n < fuel" by simp
  from await_returns_at [OF pend this] now
  show "awaitSessionSchedule E session fuel w =
            Some (Inl err, log (SessionGet session (Inl err)) (pollWorld E session w n))"
    by simp
next
  fix fuel
  assume "\<forall>k. stillPending E session w k"
  then have "\<forall>k<fuel. stillPending E session w k" by simp
  then show "awaitSessionSchedule E session fuel w = None"
    by (rule await_pending_None) simp
qed



text \<open>
  Scenario: two unscheduled answers, then a scheduled one; an unscheduled answer followed
  by a fetch error; and a scheduler that never schedules.
\<close>

lemma trace_emptyWorld [simp]: "trace emptyWorld = []"
  by (simp add: emptyWorld_def)

lemma isSessionGet_simps [simp]:
  "isSessionGet (SessionGet s r)" "\<not> isSessionGet (NewTimer d)" "\<not> isSessionGet (TimerReset d)"
  by (simp_all add: isSessionGet_def)

lemma scheduledAfter_simps [simp]:
  "beaker_Session_Get (scheduledAfter m) w s =
     Inr (sampleSession (if length (filter isSessionGet (trace w)) < m
                         then ExecutionState_empty else scheduledState))"
  "select_done (scheduledAfter m) w = False"
  "quiet (scheduledAfter m) = True"
  by (simp_all add: scheduledAfter_def sampleEnv_def)

lemma fetchFailsSecond_simps [simp]:
  "beaker_Session_Get fetchFailsSecond w s =
     (if length (filter isSessionGet (trace w)) < 1
      then Inr (sampleSession ExecutionState_empty)
      else Inl (Errorf ''connection reset''))"
  "select_done fetchFailsSecond w = False"
  "quiet fetchFailsSecond = True"
  by (simp_all add: fetchFailsSecond_def sampleEnv_def)

lemma sampleSession_Scheduled [simp]:
  "Scheduled (State (sampleSession ExecutionState_empty)) = None"
  "Scheduled (State (sampleSession scheduledState)) = Some 1"
  by (simp_all add: sampleSession_def ExecutionState_empty_def scheduledState_def)

theorem awaitSessionSchedule_polling_witness:
  "awaitSessionSchedule (scheduledAfter 2) ''01F2ABC'' 2 emptyWorld = None
   \<and> (\<exists>w'. awaitSessionSchedule (scheduledAfter 2) ''01F2ABC'' 3 emptyWorld =
              Some (Inr (sampleSession scheduledState), w')
          \<and> trace w' =
              [NewTimer 0,
               SessionGet ''01F2ABC'' (Inr (sampleSession ExecutionState_empty)),
               TimerReset 1000000000,
               SessionGet ''01F2ABC'' (Inr (sampleSession ExecutionState_empty)),
               TimerReset 1000000000,
               SessionGet ''01F2ABC'' (Inr (sampleSession scheduledState))])
   \<and> (\<exists>w'. awaitSessionSchedule fetchFailsSecond ''01F2ABC'' 5 emptyWorld =
              Some (Inl (Errorf ''connection reset''), w'))
   \<and> (\<forall>fuel. awaitSessionSchedule neverScheduled ''01F2ABC'' fuel emptyWorld = None)"
proof -
  let ?E = "scheduledAfter 2" and ?s = "''01F2ABC''"
  have pend: "\<forall>k<2. stillPending ?E ?s emptyWorld k"
    by (simp add: less_2_cases_iff stillPending_def Let_def)
  have sched: "\<not> select_done ?E (pollWorld ?E ?s emptyWorld 2)
          \<and> beaker_Session_Get ?E (pollWorld ?E ?s emptyWorld 2) ?s
               = Inr (sampleSession scheduledState)
          \<and> Scheduled (State (sampleSession scheduledState)) \<noteq> None \<and> (2::nat) < 3"
    by (simp add: numeral_2_eq_2 Let_def)
  have f0: "\<forall>k<1. stillPending fetchFailsSecond ?s emptyWorld k"
    by (simp add: stillPending_def)
  have f1: "\<not> select_done fetchFailsSecond (pollWorld fetchFailsSecond ?s emptyWorld 1)
          \<and> beaker_Session_Get fetchFailsSecond (pollWorld fetchFailsSecond ?s emptyWorld 1) ?s
               = Inl (Errorf ''connection reset'')
          \<and> (1::nat) < 5"
    by (simp add: Let_def)
  have never: "\<forall>k. stillPending neverScheduled ?s emptyWorld k"
    by (simp add: stillPending_def neverScheduled_def sessionIn_def sampleEnv_def)
  have a: "awaitSessionSchedule ?E ?s 2 emptyWorld = None"
    using awaitSessionSchedule_polling [of 2 ?E ?s emptyWorld] pend by simp
  have b: "\<exists>w'. awaitSessionSchedule ?E ?s 3 emptyWorld =
              Some (Inr (sampleSession scheduledState), w')
          \<and> trace w' = trace (pollWorld ?E ?s emptyWorld 2) @
                          [SessionGet ?s (Inr (sampleSession scheduledState))]"
    using awaitSessionSchedule_polling [of 2 ?E ?s emptyWorld] pend sched by blast
  have c: "\<exists>w'. awaitSessionSchedule fetchFailsSecond ?s 5 emptyWorld =
              Some (Inl (Errorf ''connection reset''), w')"
    using awaitSessionSchedule_polling [of 1 fetchFailsSecond ?s emptyWorld] f0 f1 by blast
  have d: "\<forall>fuel. awaitSessionSchedule neverScheduled ?s fuel emptyWorld = None"
    using awaitSessionSchedule_polling [of 0 neverScheduled ?s emptyWorld] never by blast
  have tr: "trace (pollWorld ?E ?s emptyWorld 2) =
              [NewTimer 0,
               SessionGet ''01F2ABC'' (Inr (sampleSession ExecutionState_empty)),
               TimerReset 1000000000,
               SessionGet ''01F2ABC'' (Inr (sampleSession ExecutionState_empty)),
               TimerReset 1000000000]"
    by (simp add: numeral_2_eq_2 Let_def Second_def)
  from a b c d show ?thesis
    unfolding tr by simp
qed

subsection \<open>Session create and a cancelled wait\<close>

lemma isSessionPatch_simps [simp]:
  "isSessionPatch (SessionPatch s p)" "\<not> isSessionPatch (NewTimer d)"
  "\<not> isSessionPatch (TimerReset d)" "\<not> isSessionPatch (SessionGet s r)"
  "\<not> isSessionPatch (CreateSession spec)"
  by (simp_all add: isSessionPatch_def)

lemma pollWorld_no_patch:
  "\<forall>ev \<in> set (since w (pollWorld E s w n)). \<not> isSessionPatch ev"
  by (auto simp: since_append [OF trace_pollWorld])

lemma await_cancelled:
  assumes pend: "\<forall>k<n. stillPending E s w k"
      and cancelled: "select_done E (pollWorld E s w n)"
      and fuel: "n < fuel"
  shows "awaitSessionSchedule E s fuel w =
           Some (Inl (ctx_Err E (pollWorld E s w n)), pollWorld E s w n)"
  using await_returns_at [OF pend fuel] cancelled by simp

lemma startSession_wait_error:
  "awaitSessionSchedule E s fuel w = Some (Inl err, w1) \<Longrightarrow>
   startSession E s imageTag command fuel w = Some (Return (Some err), w1)"
  by (simp add: startSession_def)

lemma sessionCreate_after_start:
  assumes node: "(node = [] \<and> getCurrentNode E w = Inr node1 \<and> w1 = log GetCurrentNode w)
                 \<or> (node \<noteq> [] \<and> node1 = node \<and> w1 = w)"
      and spec: "spec = \<lparr>spec_Name = name, spec_Node = node1,
                         spec_Resources = Some \<lparr>GPUCount = gpus\<rparr>\<rparr>"
      and created: "beaker_CreateSession E w1 spec = Inr session"
      and w2: "w2 = log (CreateSession spec) w1"
      and started: "startSession E (ID session) imageTag
                      (if length args > 0 then Some args else None) fuel w2 = Some (r, w3)"
  shows "sessionCreate E gpus imageTag name node args fuel w =
           (case r of
              Return (Some err) \<Rightarrow>
                Some (Return (Some err), log (SessionPatch (ID session) (cancelPatch E w3)) w3)
            | _ \<Rightarrow> Some (r, w3))"
  using assms
  by (auto simp: sessionCreate_def Let_def split: outcome.splits option.splits)


text \<open>
  C1, as amended. When the scheduling wait of \<open>session create\<close> is interrupted by
  cancellation of the caller's context, the wait returns the context's error and has itself
  issued no session patch; \<open>session create\<close> then issues one cancellation patch for the
  created session and returns that error. The same patch follows every error
  \<open>startSession\<close> returns, whether it comes from the wait or from the launch; no patch
  follows a nil return.
\<close>

theorem sessionCreate_patches_after_cancelled_wait:
  assumes node: "(node = [] \<and> getCurrentNode E w = Inr node1 \<and> w1 = log GetCurrentNode w)
                 \<or> (node \<noteq> [] \<and> node1 = node \<and> w1 = w)"
      and spec: "spec = \<lparr>spec_Name = name, spec_Node = node1,
                         spec_Resources = Some \<lparr>GPUCount = gpus\<rparr>\<rparr>"
      and created: "beaker_CreateSession E w1 spec = Inr session"
      and w2: "w2 = log (CreateSession spec) w1"
  shows "((\<forall>k<n. stillPending E (ID session) w2 k)
          \<and> select_done E (pollWorld E (ID session) w2 n) \<and> n < fuel \<longrightarrow>
            awaitSessionSchedule E (ID session) fuel w2 =
              Some (Inl (ctx_Err E (pollWorld E (ID session) w2 n)),
                    pollWorld E (ID session) w2 n)
          \<and> (\<forall>ev \<in> set (since w2 (pollWorld E (ID session) w2 n)). \<not> isSessionPatch ev)
          \<and> sessionCreate E gpus imageTag name node args fuel w =
              Some (Return (Some (ctx_Err E (pollWorld E (ID session) w2 n))),
                    log (SessionPatch (ID session)
                           (cancelPatch E (pollWorld E (ID session) w2 n)))
                      (pollWorld E (ID session) w2 n)))
       \<and> (\<forall>err w3.
            startSession E (ID session) imageTag
              (if length args > 0 then Some args else None) fuel w2
              = Some (Return (Some err), w3) \<longrightarrow>
            sessionCreate E gpus imageTag name node args fuel w =
              Some (Return (Some err),
                    log (SessionPatch (ID session) (cancelPatch E w3)) w3))
       \<and> (\<forall>w3.
            startSession E (ID session) imageTag
              (if length args > 0 then Some args else None) fuel w2
              = Some (Return None, w3) \<longrightarrow>
            sessionCreate E gpus imageTag name node args fuel w = Some (Return None, w3))
       \<and> (\<forall>w3. patch_State (cancelPatch E w3) =
                  Some (ExecutionState_empty\<lparr>Canceled := Some (time_Now E w3)\<rparr>))"
proof (intro conjI impI allI)
  assume c: "(\<forall>k<n. stillPending E (ID session) w2 k)
          \<and> select_done E (pollWorld E (ID session) w2 n) \<and> n < fuel"
  let ?wn = "pollWorld E (ID session) w2 n"
  from c show wait: "awaitSessionSchedule E (ID session) fuel w2 =
              Some (Inl (ctx_Err E ?wn), ?wn)"
    by (intro await_cancelled) auto
  from startSession_wait_error [OF wait]
  have "startSession E (ID session) imageTag
          (if length args > 0 then Some args else None) fuel w2
          = Some (Return (Some (ctx_Err E ?wn)), ?wn)" .
  from sessionCreate_after_start [OF node spec created w2 this]
  show "sessionCreate E gpus imageTag name node args fuel w =
              Some (Return (Some (ctx_Err E ?wn)),
                    log (SessionPatch (ID session) (cancelPatch E ?wn)) ?wn)"
    by simp
next
  show "\<forall>ev \<in> set (since w2 (pollWorld E (ID session) w2 n)). \<not> isSessionPatch ev"
    by (rule pollWorld_no_patch)
next
  fix err w3
  assume "startSession E (ID session) imageTag
              (if length args > 0 then Some args else None) fuel w2
              = Some (Return (Some err), w3)"
  from sessionCreate_after_start [OF node spec created w2 this]
  show "sessionCreate E gpus imageTag name node args fuel w =
              Some (Return (Some err),
                    log (SessionPatch (ID session) (cancelPatch E w3)) w3)"
    by simp
next
  fix w3
  assume "startSession E (ID session) imageTag
              (if length args > 0 then Some args else None) fuel w2
              = Some (Return None, w3)"
  from sessionCreate_after_start [OF node spec created w2 this]
  show "sessionCreate E gpus imageTag name node args fuel w = Some (Return None, w3)"
    by simp
next
  fix w3
  show "patch_State (cancelPatch E w3) =
                  Some (ExecutionState_empty\<lparr>Canceled := Some (time_Now E w3)\<rparr>)"
    by (simp add: cancelPatch_def now_def)
qed

lemma interrupted_simps [simp]:
  "beaker_Session_Get interrupted w s = Inr (sampleSession ExecutionState_empty)"
  "select_done interrupted w = (1 \<le> length (filter isSessionGet (trace w)))"
  "quiet interrupted = True"
  "beaker_CreateSession interrupted w spec = Inr (sampleSession ExecutionState_empty)"
  "ctx_Err interrupted w = Errorf ''context canceled''"
  "time_Now interrupted w = 1619000000"
  by (simp_all add: interrupted_def neverScheduled_def sessionIn_def sampleEnv_def)

lemma isSessionGet_CreateSession [simp]: "\<not> isSessionGet (CreateSession spec)"
  by (simp add: isSessionGet_def)

lemma sampleSession_ID [simp]: "ID (sampleSession st) = ''01F2ABC''"
  by (simp add: sampleSession_def)

text \<open>
  C1 as stated fails: the context is cancelled during the wait, after one fetch of the
  still unscheduled session, and \<open>session create\<close> patches the session.
\<close>

theorem sessionCreate_cancelled_wait_patches:
  "fst (the (sessionCreate interrupted 0 ''allenai/base'' [] ''node1'' [] 5 emptyWorld)) =
     Return (Some (Errorf ''context canceled''))
   \<and> trace (snd (the (sessionCreate interrupted 0 ''allenai/base'' [] ''node1'' [] 5
                        emptyWorld))) =
       [CreateSession sampleSpec,
        NewTimer 0,
        SessionGet ''01F2ABC'' (Inr (sampleSession ExecutionState_empty)),
        TimerReset Second,
        SessionPatch ''01F2ABC''
          \<lparr>patch_State = Some (ExecutionState_empty\<lparr>Canceled := Some 1619000000\<rparr>)\<rparr>]"
  by (simp add: sessionCreate_def startSession_def awaitSessionSchedule_def Let_def
        numeral_eq_Suc cancelPatch_def now_def sampleSpec_def)

theorem sessionCreate_patches_after_cancelled_wait_witness:
  "sessionCreate interrupted 0 ''allenai/base'' [] ''node1'' [] 5 emptyWorld =
     Some (Return (Some (Errorf ''context canceled'')),
           log (SessionPatch ''01F2ABC''
                  (cancelPatch interrupted
                     (pollWorld interrupted ''01F2ABC'' (log (CreateSession sampleSpec) emptyWorld) 1)))
             (pollWorld interrupted ''01F2ABC'' (log (CreateSession sampleSpec) emptyWorld) 1))
   \<and> filter isSessionPatch
         (since (log (CreateSession sampleSpec) emptyWorld)
            (pollWorld interrupted ''01F2ABC'' (log (CreateSession sampleSpec) emptyWorld) 1))
       = []"
proof -
  let ?w2 = "log (CreateSession sampleSpec) emptyWorld"
  have node: "(''node1'' = [] \<and> getCurrentNode interrupted emptyWorld = Inr ''node1''
                 \<and> emptyWorld = log GetCurrentNode emptyWorld)
              \<or> (''node1'' \<noteq> [] \<and> ''node1'' = ''node1'' \<and> emptyWorld = emptyWorld)"
    by simp
  have spec: "sampleSpec = \<lparr>spec_Name = [], spec_Node = ''node1'',
                            spec_Resources = Some \<lparr>GPUCount = 0\<rparr>\<rparr>"
    by (simp add: sampleSpec_def)
  have created: "beaker_CreateSession interrupted emptyWorld sampleSpec
                   = Inr (sampleSession ExecutionState_empty)"
    by simp
  have c: "(\<forall>k<1. stillPending interrupted (ID (sampleSession ExecutionState_empty)) ?w2 k)
           \<and> select_done interrupted
                (pollWorld interrupted (ID (sampleSession ExecutionState_empty)) ?w2 1)
           \<and> (1::nat) < 5"
    by (simp add: stillPending_def Let_def)
  from sessionCreate_patches_after_cancelled_wait
         [OF node spec created refl, of 1 5 "''allenai/base''" "[]"] c
  show ?thesis by (simp add: filter_empty_conv)
qed

subsection \<open>What the steps of the executor commands call and write\<close>

lemma adds_refl [simp]: "adds P w w"
  by (simp add: adds_def)

lemma adds_trans: "adds P w w1 \<Longrightarrow> adds P w1 w2 \<Longrightarrow> adds P w w2"
  by (auto simp: adds_def)

lemma adds_log: "P ev \<Longrightarrow> adds P w (log ev w)"
  by (simp add: adds_def)

lemma adds_same_trace: "trace w' = trace w \<Longrightarrow> adds P w w'"
  by (simp add: adds_def)

lemma adds_since: "adds P w w' \<Longrightarrow> \<forall>ev \<in> set (since w w'). P ev"
  by (auto simp: adds_def since_def)

lemma adds_andThen:
  assumes "adds P w (snd r)" and "\<And>w1. adds P w1 (snd (k w1))"
  shows "adds P w (snd (andThen r k))"
proof (cases r)
  case (Pair e w1)
  with assms show ?thesis
    by (cases e) (auto simp: andThen_def intro: adds_trans)
qed

lemma sameFile_refl [simp]: "sameFile q w w"
  by (simp add: sameFile_def)

lemma sameFile_trans: "sameFile q w w1 \<Longrightarrow> sameFile q w1 w2 \<Longrightarrow> sameFile q w w2"
  by (simp add: sameFile_def)

lemma sameFile_same_files: "files w' = files w \<Longrightarrow> sameFile q w w'"
  by (simp add: sameFile_def)

lemma sameFile_andThen:
  assumes "sameFile q w (snd r)" and "\<And>w1. sameFile q w1 (snd (k w1))"
  shows "sameFile q w (snd (andThen r k))"
proof (cases r)
  case (Pair e w1)
  with assms show ?thesis
    by (cases e) (auto simp: andThen_def intro: sameFile_trans)
qed

lemma files_log [simp]: "files (log ev w) = files w"
  by (simp add: log_def)

lemma files_Printf [simp]: "files (Printf fmt args w) = files w"
  by (simp add: Printf_def)

lemma files_Println [simp]: "files (Println msg w) = files w"
  by (simp add: Println_def)

lemma files_Fprintf_Stderr [simp]: "files (Fprintf_Stderr fmt args w) = files w"
  by (simp add: Fprintf_Stderr_def)

lemma files_setFiles [simp]: "files (setFiles fs w) = fs"
  by (simp add: setFiles_def)

lemma runCmd_files [simp]: "files (snd (runCmd E args cmdEnv w)) = files w"
  by (simp add: runCmd_def Let_def split: prod.split option.split)

lemma runCmd_adds: "P (ExecCmd args cmdEnv) \<Longrightarrow> adds P w (snd (runCmd E args cmdEnv w))"
  by (auto simp: runCmd_def Let_def adds_def split: prod.split option.split)

lemma succeed_files [simp]: "files (snd (succeed E msg w)) = files w"
  by (simp add: succeed_def)

lemma succeed_trace [simp]: "trace (snd (succeed E msg w)) = trace w"
  by (simp add: succeed_def)

lemma os_Create_sameFile: "q \<noteq> p \<Longrightarrow> sameFile q w (snd (os_Create E p w))"
  by (auto simp: os_Create_def Let_def sameFile_def update_conv'
        split: option.split fnode.split)

lemma os_Create_adds: "P (Create p) \<Longrightarrow> adds P w (snd (os_Create E p w))"
  by (auto simp: os_Create_def Let_def adds_def split: option.split fnode.split)

lemma file_Write_sameFile: "q \<noteq> p \<Longrightarrow> sameFile q w (snd (file_Write E p d w))"
  by (auto simp: file_Write_def Let_def sameFile_def update_conv'
        split: option.split fnode.split)

lemma file_Write_adds: "P (Write p d) \<Longrightarrow> adds P w (snd (file_Write E p d w))"
  by (auto simp: file_Write_def Let_def adds_def split: option.split fnode.split)

lemma io_Copy_sameFile: "q \<noteq> p \<Longrightarrow> sameFile q w (snd (io_Copy E p resp w))"
  using file_Write_sameFile [of q p w E "body resp"]
  by (auto simp: io_Copy_def split: prod.split option.split)

lemma io_Copy_adds: "P (Write p (body resp)) \<Longrightarrow> adds P w (snd (io_Copy E p resp w))"
  using file_Write_adds [of P p "body resp" w E]
  by (auto simp: io_Copy_def split: prod.split option.split)

lemma os_Chmod_sameFile: "q \<noteq> p \<Longrightarrow> sameFile q w (snd (os_Chmod E p m w))"
  by (auto simp: os_Chmod_def Let_def sameFile_def update_conv'
        split: option.split fnode.split)

lemma os_Chmod_adds: "P (Chmod p m) \<Longrightarrow> adds P w (snd (os_Chmod E p m w))"
  by (auto simp: os_Chmod_def Let_def adds_def split: option.split fnode.split)

lemma os_MkdirAll_adds: "P (MkdirAll p m) \<Longrightarrow> adds P w (snd (os_MkdirAll E p m w))"
  by (auto simp: os_MkdirAll_def Let_def adds_def split: option.split fnode.split)

lemma ioutil_WriteFile_adds:
  "P (WriteFile p d m) \<Longrightarrow> adds P w (snd (ioutil_WriteFile E p d m w))"
  by (auto simp: ioutil_WriteFile_def Let_def adds_def split: option.split fnode.split)

lemma files_andThen:
  assumes "files (snd r) = files w" and "\<And>w1. files (snd (k w1)) = files w1"
  shows "files (snd (andThen r k)) = files w"
proof (cases r)
  case (Pair e w1)
  with assms show ?thesis
    by (cases e) (auto simp: andThen_def)
qed

lemma stopExecutor_files [simp]: "files (snd (stopExecutor E w)) = files w"
  unfolding stopExecutor_def run_def
  by (intro files_andThen runCmd_files)

lemma startExecutor_files [simp]: "files (snd (startExecutor E w)) = files w"
  unfolding startExecutor_def run_def
  by (intro files_andThen runCmd_files)

lemma cleanupExecutor_files [simp]: "files (snd (cleanupExecutor E w)) = files w"
  by (simp add: cleanupExecutor_def)


lemma startExecutor_adds:
  "(\<And>args cmdEnv. P (ExecCmd args cmdEnv)) \<Longrightarrow> adds P w (snd (startExecutor E w))"
  unfolding startExecutor_def run_def
  by (intro adds_andThen runCmd_adds)

lemma getLatestVersion_files [simp]: "files (snd (getLatestVersion E w)) = files w"
  by (simp add: getLatestVersion_def Let_def split: sum.split option.split)

lemma getLatestVersion_adds:
  "(\<And>url. P (HttpGet url)) \<Longrightarrow> adds P w (snd (getLatestVersion E w))"
  by (auto simp: getLatestVersion_def Let_def adds_def split: sum.split option.split)

lemma downloadExecutor_sameFile:
  assumes "q \<noteq> executorPath"
  shows "sameFile q w (snd (downloadExecutor E w))"
proof (cases "getLatestVersion E w")
  case (Pair r w1)
  have w1: "sameFile q w w1"
    using getLatestVersion_files [of E w] Pair by (simp add: sameFile_def)
  show ?thesis
  proof (cases r)
    case (Inl err)
    with Pair w1 show ?thesis by (simp add: downloadExecutor_def)
  next
    case (Inr version)
    show ?thesis
    proof (cases "http_Get E w1 (executorURL version)")
      case (Inl err)
      with Pair Inr w1 show ?thesis
        by (simp add: downloadExecutor_def Let_def sameFile_def)
    next
      case resp: (Inr resp)
      have "sameFile q (log (HttpGet (executorURL version)) w1)
              (snd (andThen (os_Create E executorPath (log (HttpGet (executorURL version)) w1))
                 (\<lambda>w3. andThen (io_Copy E executorPath resp w3)
                    (\<lambda>w4. os_Chmod E executorPath 448 w4))))"
        using assms
        by (intro sameFile_andThen os_Create_sameFile io_Copy_sameFile os_Chmod_sameFile)
      with Pair Inr resp w1 show ?thesis
        by (simp add: downloadExecutor_def Let_def sameFile_def)
    qed
  qed
qed

lemma downloadExecutor_adds:
  assumes http: "\<And>url. P (HttpGet url)"
      and onBinary: "\<And>ev. fileOf ev = Some executorPath \<Longrightarrow> P ev"
  shows "adds P w (snd (downloadExecutor E w))"
proof (cases "getLatestVersion E w")
  case (Pair r w1)
  have w1: "adds P w w1"
    using getLatestVersion_adds [of P w E] http Pair by simp
  show ?thesis
  proof (cases r)
    case (Inl err)
    with Pair w1 show ?thesis by (simp add: downloadExecutor_def)
  next
    case (Inr version)
    let ?w2 = "log (HttpGet (executorURL version)) w1"
    have w2: "adds P w ?w2"
      using w1 http by (blast intro: adds_trans adds_log)
    show ?thesis
    proof (cases "http_Get E w1 (executorURL version)")
      case (Inl err)
      with Pair Inr w2 show ?thesis
        by (simp add: downloadExecutor_def Let_def)
    next
      case resp: (Inr resp)
      have "adds P ?w2
              (snd (andThen (os_Create E executorPath ?w2)
                 (\<lambda>w3. andThen (io_Copy E executorPath resp w3)
                    (\<lambda>w4. os_Chmod E executorPath 448 w4))))"
        by (intro adds_andThen os_Create_adds io_Copy_adds os_Chmod_adds onBinary)
           (simp_all add: fileOf_def)
      with Pair Inr resp w2 show ?thesis
        by (auto simp: downloadExecutor_def Let_def intro: adds_trans)
    qed
  qed
qed


lemma stopExecutor_systemctl:
  "(\<And>args. P (ExecCmd (''systemctl'' # args) [])) \<Longrightarrow> adds P w (snd (stopExecutor E w))"
  unfolding stopExecutor_def run_def
  by (intro adds_andThen runCmd_adds)

lemma startExecutor_systemctl:
  "(\<And>args. P (ExecCmd (''systemctl'' # args) [])) \<Longrightarrow> adds P w (snd (startExecutor E w))"
  unfolding startExecutor_def run_def
  by (intro adds_andThen runCmd_adds)

lemma executorTokenPath_not_binary: "executorTokenPath E \<noteq> executorPath"
proof
  assume "executorTokenPath E = executorPath"
  then have "last (executorTokenPath E) = last executorPath" by simp
  then show False
    by (simp add: executorTokenPath_def path_Join_def executorPath_def split: if_splits)
qed

lemma executorSystemdPath_not_binary: "executorSystemdPath \<noteq> executorPath"
  by (simp add: executorSystemdPath_def executorPath_def executorService_def)

subsection \<open>Upgrade\<close>

lemma executorUpgrade_sameFile:
  assumes "q \<noteq> executorPath"
  shows "sameFile q w (snd (executorUpgrade E w))"
  unfolding executorUpgrade_def
  by (intro sameFile_andThen downloadExecutor_sameFile assms)
     (simp_all add: sameFile_def)

lemma executorUpgrade_adds: "adds upgradeCall w (snd (executorUpgrade E w))"
  unfolding executorUpgrade_def
  by (intro adds_andThen downloadExecutor_adds stopExecutor_systemctl startExecutor_systemctl
        adds_same_trace)
     (simp_all add: upgradeCall_def fileOf_def split: event.splits)

text \<open>
  C7. An upgrade leaves every file other than the executor binary as it was, in particular
  the token file, the service unit file and the config file, and the only calls it makes
  are \<open>systemctl\<close> runs, HTTP fetches and file operations on the binary path.
\<close>

theorem executorUpgrade_writes_only_binary:
  "(\<forall>q. q \<noteq> executorPath \<longrightarrow>
        map_of (files (snd (executorUpgrade E w))) q = map_of (files w) q)
   \<and> map_of (files (snd (executorUpgrade E w))) (executorTokenPath E)
       = map_of (files w) (executorTokenPath E)
   \<and> map_of (files (snd (executorUpgrade E w))) executorSystemdPath
       = map_of (files w) executorSystemdPath
   \<and> (executorConfigPath E \<noteq> executorPath \<longrightarrow>
        map_of (files (snd (executorUpgrade E w))) (executorConfigPath E)
          = map_of (files w) (executorConfigPath E))
   \<and> (\<forall>ev \<in> set (since w (snd (executorUpgrade E w))). upgradeCall ev)"
  using executorUpgrade_sameFile [of _ w E] executorTokenPath_not_binary [of E]
        executorSystemdPath_not_binary adds_since [OF executorUpgrade_adds, of w E]
  by (simp add: sameFile_def)



text \<open>Scenario: upgrade on a node with the executor installed.\<close>

lemma sampleEnv_paths [simp]:
  "executorConfigPath sampleEnv = ''/etc/beaker/config.yml''"
  "executorConfigDir sampleEnv = ''/etc/beaker''"
  by (simp_all add: sampleEnv_def)

theorem executorUpgrade_writes_only_binary_witness:
  "map_of (files (snd (executorUpgrade sampleEnv installedWorld))) ''/etc/beaker/config.yml''
     = Some (File ''storagePath: /var/beaker'' 438)
   \<and> map_of (files (snd (executorUpgrade sampleEnv installedWorld)))
         ''/etc/beaker/executor-token''
     = Some (File ''token'' 384)
   \<and> map_of (files (snd (executorUpgrade sampleEnv installedWorld)))
         ''/etc/systemd/system/beaker-executor.service''
     = Some (File ''[Unit]'' 438)
   \<and> list_all upgradeCall
         (since installedWorld (snd (executorUpgrade sampleEnv installedWorld)))"
proof -
  have ne: "executorConfigPath sampleEnv \<noteq> executorPath"
           "''/etc/beaker/executor-token'' \<noteq> executorPath"
           "''/etc/systemd/system/beaker-executor.service'' \<noteq> executorPath"
    by (simp_all add: executorPath_def)
  have before:
    "map_of (files installedWorld) ''/etc/beaker/config.yml''
       = Some (File ''storagePath: /var/beaker'' 438)"
    "map_of (files installedWorld) ''/etc/beaker/executor-token'' = Some (File ''token'' 384)"
    "map_of (files installedWorld) ''/etc/systemd/system/beaker-executor.service''
       = Some (File ''[Unit]'' 438)"
    by (simp_all add: installedWorld_def emptyWorld_def)
  from executorUpgrade_writes_only_binary [of sampleEnv installedWorld] ne before
  show ?thesis by (simp add: list_all_iff)
qed

subsection \<open>Install\<close>

lemma executorInstall_after_validation:
  assumes "map_of (files w) executorPath = None"
  shows "adds (\<lambda>ev. True) (log (ClusterGet cluster) w)
           (snd (executorInstall E cluster storageDir w))"
  using assms
  apply (simp add: executorInstall_def os_Stat_def)
  apply (intro adds_andThen os_MkdirAll_adds ioutil_WriteFile_adds os_Create_adds
           file_Write_adds downloadExecutor_adds startExecutor_adds adds_same_trace)
  apply simp_all
  done

text \<open>
  C5. If the executor binary exists, install returns the already-installed error and the
  world is as before: nothing was called and nothing written. If the binary is absent, the
  first call install makes is the validation of the cluster with the remote scheduler, and
  if that fails install returns the error with the file map unchanged and no other call
  made.
\<close>

theorem executorInstall_fails_before_writing:
  "(map_of (files w) executorPath \<noteq> None \<longrightarrow>
      (\<exists>err. executorInstall E cluster storageDir w = (Some err, w)
           \<and> HasPrefix (Error err) ''executor is already installed.''))
   \<and> (map_of (files w) executorPath = None \<and> beaker_Cluster_Get E w cluster = Some err \<longrightarrow>
        executorInstall E cluster storageDir w = (Some err, log (ClusterGet cluster) w)
        \<and> files (log (ClusterGet cluster) w) = files w
        \<and> since w (log (ClusterGet cluster) w) = [ClusterGet cluster])
   \<and> (map_of (files w) executorPath = None \<longrightarrow>
        (\<exists>rest. trace (snd (executorInstall E cluster storageDir w)) =
                  trace w @ ClusterGet cluster # rest))"
proof (intro conjI impI)
  assume "map_of (files w) executorPath \<noteq> None"
  then show "\<exists>err. executorInstall E cluster storageDir w = (Some err, w)
           \<and> HasPrefix (Error err) ''executor is already installed.''"
    by (auto simp: executorInstall_def os_Stat_def HasPrefix_def Errorf_def)
next
  assume "map_of (files w) executorPath = None \<and> beaker_Cluster_Get E w cluster = Some err"
  then show "executorInstall E cluster storageDir w = (Some err, log (ClusterGet cluster) w)"
    by (simp add: executorInstall_def os_Stat_def andThen_def)
next
  show "files (log (ClusterGet cluster) w) = files w" by simp
next
  show "since w (log (ClusterGet cluster) w) = [ClusterGet cluster]"
    by (simp add: since_def)
next
  assume "map_of (files w) executorPath = None"
  from executorInstall_after_validation [OF this, of cluster E storageDir]
  show "\<exists>rest. trace (snd (executorInstall E cluster storageDir w)) =
                  trace w @ ClusterGet cluster # rest"
    by (auto simp: adds_def)
qed

text \<open>
  Scenario: install on a node where the binary exists, and install of an unknown cluster
  on a clean node.
\<close>

theorem executorInstall_fails_before_writing_witness:
  "(\<exists>err. executorInstall sampleEnv ''prod-cluster'' ''/var/beaker'' installedWorld
             = (Some err, installedWorld)
        \<and> HasPrefix (Error err) ''executor is already installed.'')
   \<and> executorInstall unknownCluster ''prod-cluster'' ''/var/beaker'' emptyWorld
       = (Some (Errorf ''cluster not found''), log (ClusterGet ''prod-cluster'') emptyWorld)
   \<and> files (log (ClusterGet ''prod-cluster'') emptyWorld) = []
   \<and> (\<exists>rest. trace (snd (executorInstall sampleEnv ''prod-cluster'' ''/var/beaker''
                             emptyWorld))
         = ClusterGet ''prod-cluster'' # rest)"
proof -
  have present: "map_of (files installedWorld) executorPath \<noteq> None"
    by (simp add: installedWorld_def emptyWorld_def executorPath_def)
  have absent: "map_of (files emptyWorld) executorPath = None"
    by (simp add: emptyWorld_def)
  have invalid: "beaker_Cluster_Get unknownCluster emptyWorld ''prod-cluster''
                   = Some (Errorf ''cluster not found'')"
    by (simp add: unknownCluster_def)
  have nofiles: "files emptyWorld = []"
    by (simp add: emptyWorld_def)
  from executorInstall_fails_before_writing
         [of installedWorld sampleEnv "''prod-cluster''" "''/var/beaker''"]
       executorInstall_fails_before_writing
         [of emptyWorld unknownCluster "''prod-cluster''" "''/var/beaker''"
             "Errorf ''cluster not found''"]
       executorInstall_fails_before_writing
         [of emptyWorld sampleEnv "''prod-cluster''" "''/var/beaker''"]
       present absent invalid nofiles
  show ?thesis by simp
qed

subsection \<open>Uninstall\<close>


lemma andThen_None [simp]: "andThen (None, w) k = k w"
  by (simp add: andThen_def)

lemma andThen_Some [simp]: "andThen (Some err, w) k = (Some err, w)"
  by (simp add: andThen_def)








lemma warnOnly_simps [simp]:
  "trace (warnOnly fmt r) = trace (snd r)" "files (warnOnly fmt r) = files (snd r)"
  by (cases r; cases "fst r"; simp add: warnOnly_def)+


lemma afterTeardown_files [simp]: "files (afterTeardown E config w) = files w"
  by (simp add: afterTeardown_def Let_def)














subsection \<open>Stop\<close>

text \<open>
  C4, as amended. In a confirmed stop whose service-stop step succeeded, a failure of the
  executor's cleanup subcommand is reported (the subcommand's output is printed) and is
  returned by the stop command as its error; the cleanup run is the last call made.
\<close>

theorem executorStop_returns_cleanup_failure:
  assumes confirmed: "confirm E w stopPrompt [] = Inr True"
      and stopped: "stopExecutor E (log (Confirm stopPrompt []) w) = (None, w1)"
      and cleanup: "cleanupExecutor E w1 = (Some err, w2)"
  shows "executorStop E w = (Some err, w2)
       \<and> trace w2 = trace w1 @ [ExecCmd [executorPath, ''cleanup'']
                                  [''CONFIG_PATH='' @ executorConfigPath E]]
       \<and> (\<exists>out. stdout w2 = stdout w1 @
                    [(''Output from %q:'' @ nl @ ''%s'' @ nl,
                      [Str (executorPath @ '' cleanup''), Str out])])"
proof (intro conjI)
  from assms show "executorStop E w = (Some err, w2)"
    by (simp add: executorStop_def Let_def)
next
  from cleanup show "trace w2 = trace w1 @ [ExecCmd [executorPath, ''cleanup'']
                                  [''CONFIG_PATH='' @ executorConfigPath E]]"
    by (auto simp: cleanupExecutor_def runCmd_def Let_def split: prod.splits option.splits)
next
  from cleanup show "\<exists>out. stdout w2 = stdout w1 @
                    [(''Output from %q:'' @ nl @ ''%s'' @ nl,
                      [Str (executorPath @ '' cleanup''), Str out])]"
    by (auto simp: cleanupExecutor_def runCmd_def Let_def Printf_def log_def
          split: prod.splits option.splits)
qed

text \<open>
  C4 as stated fails: the service is stopped, the cleanup subcommand fails, and the stop
  command returns the cleanup's error.
\<close>

theorem executorStop_fails_on_cleanup_failure:
  "fst (executorStop cleanupFails installedWorld) = Some (Errorf ''exit status 1'')
   \<and> trace (snd (executorStop cleanupFails installedWorld)) =
       [Confirm stopPrompt [],
        ExecCmd [''systemctl'', ''disable'', ''beaker-executor''] [],
        ExecCmd [''systemctl'', ''stop'', ''beaker-executor''] [],
        ExecCmd [''/usr/bin/beaker-executor'', ''cleanup'']
          [''CONFIG_PATH=/etc/beaker/config.yml'']]"
  by code_simp

theorem executorStop_returns_cleanup_failure_witness:
  "executorStop cleanupFails installedWorld =
     (Some (Errorf ''exit status 1''),
      snd (cleanupExecutor cleanupFails
             (snd (stopExecutor cleanupFails (log (Confirm stopPrompt []) installedWorld)))))
   \<and> stdout (snd (executorStop cleanupFails installedWorld)) =
       [(''Output from %q:'' @ nl @ ''%s'' @ nl,
         [Str ''/usr/bin/beaker-executor cleanup'',
          Str ''cannot connect to the Docker daemon''])]"
proof -
  let ?w0 = "log (Confirm stopPrompt []) installedWorld"
  let ?w1 = "snd (stopExecutor cleanupFails ?w0)"
  let ?w2 = "snd (cleanupExecutor cleanupFails ?w1)"
  have confirmed: "confirm cleanupFails installedWorld stopPrompt [] = Inr True"
    by (simp add: cleanupFails_def sampleEnv_def)
  have stopped: "stopExecutor cleanupFails ?w0 = (None, ?w1)"
    by code_simp
  have cleanup: "cleanupExecutor cleanupFails ?w1 = (Some (Errorf ''exit status 1''), ?w2)"
    by code_simp
  have out: "stdout ?w2 =
       [(''Output from %q:'' @ nl @ ''%s'' @ nl,
         [Str ''/usr/bin/beaker-executor cleanup'',
          Str ''cannot connect to the Docker daemon''])]"
    by code_simp
  from executorStop_returns_cleanup_failure [OF confirmed stopped cleanup] out
  show ?thesis by simp
qed

end
